theory Spec2Isabelle
  imports Complex_Main "HOL-Library.AList"
begin

section \<open>Values, requests and errors\<close>

text \<open>
  JavaScript values as far as the nodes handle them: parameter values, request bodies,
  query strings and remote responses. \<open>JUndefined\<close> is the value \<open>undefined\<close>; an
  object is an association list in insertion order, with distinct keys when it comes from
  the parser or the remote. Strings are ASCII text, as lists of 8-bit characters.
\<close>

datatype json =
    JUndefined
  | JNull
  | JBool bool
  | JNum rat
  | JStr string
  | JArr "json list"
  | JObj "(string \<times> json) list"

text \<open>
  The errors the nodes see. The code inspects three things of a thrown value: whether it is
  a \<open>NodeOperationError\<close>, whether it has a \<open>context\<close> property, and its message.
  \<open>NodeOperationError m c\<close> is thrown by the nodes themselves (\<open>c\<close> is \<open>context.itemIndex\<close>);
  \<open>ContextError\<close> is any other error class that carries a \<open>context\<close>;
  \<open>PlainError\<close> is an \<open>Error\<close> without one, such as the \<open>SyntaxError\<close> of \<open>JSON.parse\<close>.
\<close>

datatype error =
    NodeOperationError string "nat option"
  | ContextError string "nat option"
  | PlainError string

fun message :: "error \<Rightarrow> string" where
  "message (NodeOperationError m c) = m"
| "message (ContextError m c) = m"
| "message (PlainError m) = m"

fun itemIndex_of :: "error \<Rightarrow> nat option" where
  "itemIndex_of (NodeOperationError m c) = c"
| "itemIndex_of (ContextError m c) = c"
| "itemIndex_of (PlainError m) = None"

fun has_context :: "error \<Rightarrow> bool" where
  "has_context (PlainError m) = False"
| "has_context e = True"

record request =
  auth :: string
  httpMethod :: string
  baseURL :: string
  url :: string
  qs :: "(string \<times> json) list"
  body :: "json option"

record binary_data =
  fileName :: "string option"

record item =
  binary :: "(string \<times> binary_data) list"

text \<open>
  The execution context the host hands to \<open>execute\<close>: the input items, the parameter
  values by name and item index (typed as the node declares them; \<open>None\<close> when the host has
  no value), the raw node parameters, the continue-on-fail switch, the credential, the
  remote service (its answer may depend on the requests made so far), \<open>JSON.parse\<close>
  (\<open>Inl\<close> is the message of its \<open>SyntaxError\<close>), the base64 content of a binary attachment,
  and the text JavaScript makes of a value that is not a string.
\<close>

record env =
  getInputData :: "item list"
  strParam :: "string \<Rightarrow> nat \<Rightarrow> string option"
  numParam :: "string \<Rightarrow> nat \<Rightarrow> rat option"
  boolParam :: "string \<Rightarrow> nat \<Rightarrow> bool option"
  jsonParam :: "string \<Rightarrow> nat \<Rightarrow> json option"
  nodeParameters :: "(string \<times> json) list"
  continueOnFail :: bool
  credBaseUrl :: "string option"
  credApiToken :: "string option"
  remote :: "request list \<Rightarrow> request \<Rightarrow> error + json"
  JSON_parse :: "string \<Rightarrow> string + json"
  getBinaryDataBuffer :: "nat \<Rightarrow> string \<Rightarrow> error + string"
  js_String :: "json \<Rightarrow> string"

text \<open>One entry of the returned item array (\<open>INodeExecutionData\<close>).\<close>

record entry =
  json_of :: json
  pairedItem :: nat
  error_of :: "error option"

section \<open>Actions: a request log and a result or a thrown error\<close>

type_synonym 'a act = "request list \<Rightarrow> (error + 'a) \<times> request list"

definition returnA :: "'a \<Rightarrow> 'a act" where
  "returnA x = (\<lambda>log. (Inr x, log))"

definition throwA :: "error \<Rightarrow> 'a act" where
  "throwA e = (\<lambda>log. (Inl e, log))"

definition liftE :: "error + 'a \<Rightarrow> 'a act" where
  "liftE r = (\<lambda>log. (r, log))"

definition bindA :: "'a act \<Rightarrow> ('a \<Rightarrow> 'b act) \<Rightarrow> 'b act" where
  "bindA m f = (\<lambda>log. case m log of
                   (Inl e, log') \<Rightarrow> (Inl e, log')
                 | (Inr x, log') \<Rightarrow> f x log')"

definition httpRequestWithAuthentication :: "env \<Rightarrow> request \<Rightarrow> json act" where
  "httpRequestWithAuthentication env r = (\<lambda>log. (remote env log r, log @ [r]))"

section \<open>JavaScript helpers\<close>

text \<open>
  \<open>s.trim()\<close> on ASCII text: tab, line feed, vertical tab, form feed, carriage return and
  space are stripped from both ends. (JavaScript strips the white space beyond ASCII as well,
  which these 8-bit strings do not hold.)
\<close>

definition is_space :: "char \<Rightarrow> bool" where
  "is_space c = (c \<in> set [CHR 0x09, CHR 0x0A, CHR 0x0B, CHR 0x0C, CHR 0x0D, CHR 0x20])"

definition trim :: "string \<Rightarrow> string" where
  "trim s = rev (dropWhile is_space (rev (dropWhile is_space s)))"

text \<open>\<open>s.split(c)\<close> for a one-character separator; the empty text gives one empty piece.\<close>

fun split :: "char \<Rightarrow> string \<Rightarrow> string list" where
  "split c [] = [[]]"
| "split c (x # xs) =
     (if x = c then [] # split c xs
      else (case split c xs of [] \<Rightarrow> [[x]] | w # ws \<Rightarrow> (x # w) # ws))"

text \<open>\<open>s.split(',').map((id) => id.trim()).filter(Boolean)\<close>\<close>

definition split_ids :: "string \<Rightarrow> string list" where
  "split_ids s = filter (\<lambda>t. t \<noteq> []) (map trim (split (CHR '','') s))"

fun truthy :: "json \<Rightarrow> bool" where
  "truthy JUndefined = False"
| "truthy JNull = False"
| "truthy (JBool b) = b"
| "truthy (JNum n) = (n \<noteq> 0)"
| "truthy (JStr s) = (s \<noteq> [])"
| "truthy (JArr xs) = True"
| "truthy (JObj kvs) = True"

text \<open>\<open>a ?? b\<close>\<close>

fun nullish :: "json \<Rightarrow> json \<Rightarrow> json" where
  "nullish JUndefined d = d"
| "nullish JNull d = d"
| "nullish v d = v"

text \<open>\<open>Object.keys(v).length\<close>; it throws a \<open>TypeError\<close> on \<open>null\<close> and \<open>undefined\<close>.\<close>

fun keys_length :: "json \<Rightarrow> error + nat" where
  "keys_length (JObj kvs) = Inr (length (remdups (map fst kvs)))"
| "keys_length (JArr xs) = Inr (length xs)"
| "keys_length (JStr s) = Inr (length s)"
| "keys_length (JNum n) = Inr 0"
| "keys_length (JBool b) = Inr 0"
| "keys_length JNull = Inl (PlainError ''Cannot convert undefined or null to object'')"
| "keys_length JUndefined = Inl (PlainError ''Cannot convert undefined or null to object'')"

text \<open>
  \<open>typeof p === 'string' ? JSON.parse(p || d) : p\<close>: a text value is parsed (the text \<open>d\<close>
  standing in for the empty string), a structured value is taken as it is.
\<close>

definition parse_if_string :: "env \<Rightarrow> json \<Rightarrow> string \<Rightarrow> error + json" where
  "parse_if_string env p d =
     (case p of
        JStr s \<Rightarrow> (case JSON_parse env (if s = [] then d else s) of
                     Inl m \<Rightarrow> Inl (PlainError m)
                   | Inr v \<Rightarrow> Inr v)
      | v \<Rightarrow> Inr v)"

text \<open>
  What \<open>JSON.stringify\<close> puts on the wire for a body built by the nodes: fields whose value
  is \<open>undefined\<close> are left out.
\<close>

definition wire_fields :: "(string \<times> json) list \<Rightarrow> (string \<times> json) list" where
  "wire_fields kvs = filter (\<lambda>kv. snd kv \<noteq> JUndefined) kvs"

section \<open>Parameter access\<close>

text \<open>
  \<open>getNodeParameter(name, index)\<close> throws when the host has no value (an error of the
  host, taken here to carry no context); \<open>getNodeParameter(name, index, fallback)\<close> returns
  the fallback instead. The values are typed as the node declares its parameters: a text, a
  number, a boolean, or for a \<open>json\<close> parameter a text (\<open>JStr\<close>) or a structured value.
\<close>

definition reqStr :: "env \<Rightarrow> string \<Rightarrow> nat \<Rightarrow> string act" where
  "reqStr env name i =
     (case strParam env name i of
        None \<Rightarrow> throwA (PlainError ''Could not get parameter'')
      | Some v \<Rightarrow> returnA v)"

definition reqJson :: "env \<Rightarrow> string \<Rightarrow> nat \<Rightarrow> json act" where
  "reqJson env name i =
     (case jsonParam env name i of
        None \<Rightarrow> throwA (PlainError ''Could not get parameter'')
      | Some v \<Rightarrow> returnA v)"

definition optStr :: "env \<Rightarrow> string \<Rightarrow> nat \<Rightarrow> string \<Rightarrow> string" where
  "optStr env name i d = (case strParam env name i of None \<Rightarrow> d | Some v \<Rightarrow> v)"

definition optNum :: "env \<Rightarrow> string \<Rightarrow> nat \<Rightarrow> rat \<Rightarrow> rat" where
  "optNum env name i d = (case numParam env name i of None \<Rightarrow> d | Some v \<Rightarrow> v)"

definition optBool :: "env \<Rightarrow> string \<Rightarrow> nat \<Rightarrow> bool \<Rightarrow> bool" where
  "optBool env name i d = (case boolParam env name i of None \<Rightarrow> d | Some v \<Rightarrow> v)"

definition optJson :: "env \<Rightarrow> string \<Rightarrow> nat \<Rightarrow> json \<Rightarrow> json" where
  "optJson env name i d = (case jsonParam env name i of None \<Rightarrow> d | Some v \<Rightarrow> v)"

text \<open>
  \<open>getNodeParameter(name, index, undefined) as number | undefined\<close>: the node reads
  \<open>undefined\<close> when the host has no value.
\<close>

definition optNumU :: "env \<Rightarrow> string \<Rightarrow> nat \<Rightarrow> rat option" where
  "optNumU env name i = numParam env name i"

section \<open>Credentials and the organization lookup\<close>

definition default_baseUrl :: string where
  "default_baseUrl = ''https://app.docrouter.ai/fastapi''"

text \<open>\<open>(credentials?.baseUrl as string)?.trim() || 'https://app.docrouter.ai/fastapi'\<close>\<close>

definition baseUrl :: "env \<Rightarrow> string" where
  "baseUrl env =
     (case credBaseUrl env of
        None \<Rightarrow> default_baseUrl
      | Some b \<Rightarrow> (if trim b = [] then default_baseUrl else trim b))"

definition apiToken :: "env \<Rightarrow> json" where
  "apiToken env = (case credApiToken env of None \<Rightarrow> JUndefined | Some t \<Rightarrow> JStr t)"

definition token_url :: string where
  "token_url = ''/v0/account/token/organization''"

definition token_request :: "env \<Rightarrow> request" where
  "token_request env =
     \<lparr>auth = ''docRouterOrgApi'', httpMethod = ''GET'', baseURL = baseUrl env, url = token_url,
      qs = [(''token'', apiToken env)], body = None\<rparr>"

text \<open>
  \<open>tokenInfoResponse?.organization_id\<close>: the field of the response when it is an object that
  has it, \<open>undefined\<close> otherwise.
\<close>

fun organization_id :: "json \<Rightarrow> json" where
  "organization_id (JObj kvs) =
     (case map_of kvs ''organization_id'' of Some v \<Rightarrow> v | None \<Rightarrow> JUndefined)"
| "organization_id v = JUndefined"

text \<open>A value inside a template literal, as in \<open>`/v0/orgs/${organizationId}/documents`\<close>.\<close>

definition template :: "env \<Rightarrow> json \<Rightarrow> string" where
  "template env v = (case v of JStr s \<Rightarrow> s | _ \<Rightarrow> js_String env v)"

definition org_message_document :: string where
  "org_message_document =
     ''Could not determine organization ID from token. Make sure you are using an organization-level API token.''"

definition org_message :: string where
  "org_message =
     ''Could not determine organization ID from token. Use an organization-level API token.''"

text \<open>The lookup at the head of \<open>execute\<close>, and the \<open>if (!organizationId) throw\<close> after it.\<close>

definition resolve_organization :: "env \<Rightarrow> string \<Rightarrow> string act" where
  "resolve_organization env msg =
     bindA (httpRequestWithAuthentication env (token_request env)) (\<lambda>tokenInfoResponse.
       let organizationId = organization_id tokenInfoResponse
       in if \<not> truthy organizationId then throwA (NodeOperationError msg None)
          else returnA (template env organizationId))"

section \<open>The batch skeleton shared by the nodes\<close>

text \<open>\<open>returnData.push({ json: response ?? {}, pairedItem: { item: i } })\<close>\<close>

definition ok_entry :: "json \<Rightarrow> nat \<Rightarrow> entry" where
  "ok_entry response i = \<lparr>json_of = nullish response (JObj []), pairedItem = i, error_of = None\<rparr>"

text \<open>\<open>error instanceof NodeOperationError ? error : new NodeOperationError(node, error)\<close>\<close>

fun as_NodeOperationError :: "error \<Rightarrow> error" where
  "as_NodeOperationError (NodeOperationError m c) = NodeOperationError m c"
| "as_NodeOperationError e = NodeOperationError (message e) None"

definition error_entry :: "error \<Rightarrow> nat \<Rightarrow> entry" where
  "error_entry e i =
     \<lparr>json_of = JObj [(''error'', JStr (message e))], pairedItem = i,
      error_of = Some (as_NodeOperationError e)\<rparr>"

text \<open>
  \<open>if (error instanceof Error && 'context' in error) error.context = {...error.context, itemIndex}\<close>
\<close>

fun annotate :: "nat \<Rightarrow> error \<Rightarrow> error" where
  "annotate i (NodeOperationError m c) = NodeOperationError m (Some i)"
| "annotate i (ContextError m c) = ContextError m (Some i)"
| "annotate i (PlainError m) = PlainError m"

text \<open>
  The body of a \<open>try\<close>/\<open>catch\<close> around one step that pushes to \<open>returnData\<close>: on success the
  response is pushed; on an error, with continue-on-fail an error entry is pushed, otherwise
  the error is thrown again, after \<open>rethrow\<close> has been applied to it.
\<close>

definition guarded :: "env \<Rightarrow> (error \<Rightarrow> error) \<Rightarrow> nat \<Rightarrow> json act \<Rightarrow> entry list \<Rightarrow> entry list act" where
  "guarded env rethrow i step returnData = (\<lambda>log.
     case step log of
       (Inr response, log') \<Rightarrow> (Inr (returnData @ [ok_entry response i]), log')
     | (Inl e, log') \<Rightarrow>
         (if continueOnFail env then (Inr (returnData @ [error_entry e i]), log')
          else (Inl (rethrow e), log')))"

text \<open>
  \<open>for (let itemIndex = 0; itemIndex < items.length; itemIndex++) { try { ... } catch { ... } }\<close>,
  as a recursion over the indices still to visit.
\<close>

fun for_items :: "env \<Rightarrow> (nat \<Rightarrow> error \<Rightarrow> error) \<Rightarrow> (nat \<Rightarrow> json act) \<Rightarrow> nat list \<Rightarrow> entry list \<Rightarrow> entry list act" where
  "for_items env rethrow step [] returnData = returnA returnData"
| "for_items env rethrow step (i # is) returnData =
     bindA (guarded env (rethrow i) i (step i) returnData) (for_items env rethrow step is)"

definition item_loop :: "env \<Rightarrow> (nat \<Rightarrow> error \<Rightarrow> error) \<Rightarrow> (nat \<Rightarrow> json act) \<Rightarrow> entry list act" where
  "item_loop env rethrow step = for_items env rethrow step [0..<length (getInputData env)] []"

text \<open>A block that runs once for the whole batch and pairs its result with item 0.\<close>

definition run_once :: "env \<Rightarrow> json act \<Rightarrow> entry list act" where
  "run_once env step = guarded env (\<lambda>e. e) 0 step []"

text \<open>A request with the organization credential, and one with the account credential.\<close>

definition org_request :: "env \<Rightarrow> string \<Rightarrow> string \<Rightarrow> (string \<times> json) list \<Rightarrow> json option \<Rightarrow> request" where
  "org_request env m u q b =
     \<lparr>auth = ''docRouterOrgApi'', httpMethod = m, baseURL = baseUrl env, url = u, qs = q, body = b\<rparr>"

definition account_request :: "env \<Rightarrow> string \<Rightarrow> string \<Rightarrow> (string \<times> json) list \<Rightarrow> json option \<Rightarrow> request" where
  "account_request env m u q b =
     \<lparr>auth = ''docRouterAccountApi'', httpMethod = m, baseURL = baseUrl env, url = u, qs = q, body = b\<rparr>"

text \<open>\<open>if (cond) obj.key = value\<close> on an object under construction.\<close>

definition set_if :: "bool \<Rightarrow> string \<Rightarrow> json \<Rightarrow> (string \<times> json) list \<Rightarrow> (string \<times> json) list" where
  "set_if cond k v obj = (if cond then AList.update k v obj else obj)"

text \<open>\<open>'k' in nodeParams && nodeParams.k != null\<close>, giving the raw value when it holds.\<close>

definition node_param :: "env \<Rightarrow> string \<Rightarrow> json option" where
  "node_param env k =
     (case map_of (nodeParameters env) k of
        None \<Rightarrow> None
      | Some v \<Rightarrow> (if v = JNull \<or> v = JUndefined then None else Some v))"

definition unknown_operation :: "string \<Rightarrow> error" where
  "unknown_operation operation = NodeOperationError (''Unknown operation: '' @ operation) None"

definition custom_api_call :: string where
  "custom_api_call = ''__CUSTOM_API_CALL__''"

section \<open>Document upload, shared by the Document node and the DocRouter node\<close>

definition no_binary_error :: "string \<Rightarrow> nat \<Rightarrow> error" where
  "no_binary_error binaryPropertyName itemIndex =
     NodeOperationError
       (''No binary data found on property '' @ [CHR 0x22] @ binaryPropertyName @ [CHR 0x22])
       (Some itemIndex)"

text \<open>\<open>documentNameParam?.trim() || (binaryData.fileName as string) || 'document'\<close>\<close>

definition documentName :: "string \<Rightarrow> binary_data \<Rightarrow> string" where
  "documentName documentNameParam binaryData =
     (if trim documentNameParam \<noteq> [] then trim documentNameParam
      else (case fileName binaryData of
              Some f \<Rightarrow> (if f \<noteq> [] then f else ''document'')
            | None \<Rightarrow> ''document''))"

text \<open>
  The one document of the upload body; \<open>nkeys\<close> is \<open>Object.keys(metadata || {}).length\<close>.
\<close>

definition upload_document :: "string \<Rightarrow> string \<Rightarrow> string list \<Rightarrow> json \<Rightarrow> nat \<Rightarrow> (string \<times> json) list" where
  "upload_document name content tagIds metadata nkeys =
     [(''name'', JStr name),
      (''content'', JStr content),
      (''tag_ids'', if tagIds \<noteq> [] then JArr (map JStr tagIds) else JUndefined),
      (''metadata'', if nkeys \<noteq> 0 then metadata else JUndefined)]"

definition upload_body :: "string \<Rightarrow> string \<Rightarrow> string list \<Rightarrow> json \<Rightarrow> nat \<Rightarrow> json" where
  "upload_body name content tagIds metadata nkeys =
     JObj [(''documents'', JArr [JObj (upload_document name content tagIds metadata nkeys)])]"

text \<open>
  The body of the upload case from \<open>const item = items[itemIndex]\<close> to the request; the
  two nodes differ only in where the parameters and the organization come from.
\<close>

definition upload_item :: "env \<Rightarrow> string \<Rightarrow> string \<Rightarrow> string \<Rightarrow> string \<Rightarrow> json \<Rightarrow> nat \<Rightarrow> json act" where
  "upload_item env organizationId binaryPropertyName documentNameParam tagIdsParam metadataParam itemIndex =
     (case map_of (binary (getInputData env ! itemIndex)) binaryPropertyName of
        None \<Rightarrow> throwA (no_binary_error binaryPropertyName itemIndex)
      | Some binaryData \<Rightarrow>
          bindA (liftE (getBinaryDataBuffer env itemIndex binaryPropertyName)) (\<lambda>content.
            let name = documentName documentNameParam binaryData;
                tagIds = (if tagIdsParam \<noteq> [] then split_ids tagIdsParam else [])
            in bindA (liftE (parse_if_string env metadataParam ''{}'')) (\<lambda>metadata.
                 bindA (liftE (keys_length (if truthy metadata then metadata else JObj []))) (\<lambda>nkeys.
                   httpRequestWithAuthentication env
                     (org_request env ''POST'' (''/v0/orgs/'' @ organizationId @ ''/documents'') []
                        (Some (upload_body name content tagIds metadata nkeys)))))))"

section \<open>The Document node\<close>

definition document_list :: "env \<Rightarrow> string \<Rightarrow> json act" where
  "document_list env organizationId =
     (let limit = optNum env ''limit'' 0 10;
          skip = optNum env ''skip'' 0 0;
          filterTagIds = optStr env ''filterTagIds'' 0 [];
          nameSearch = optStr env ''nameSearch'' 0 [];
          metadataSearch = optStr env ''metadataSearch'' 0 [];
          qs0 = [(''limit'', JNum limit), (''skip'', JNum skip)];
          qs1 = set_if (filterTagIds \<noteq> []) ''tag_ids'' (JStr filterTagIds) qs0;
          qs2 = set_if (nameSearch \<noteq> []) ''name_search'' (JStr nameSearch) qs1;
          qs3 = set_if (metadataSearch \<noteq> []) ''metadata_search'' (JStr metadataSearch) qs2
      in httpRequestWithAuthentication env
           (org_request env ''GET'' (''/v0/orgs/'' @ organizationId @ ''/documents'') qs3 None))"

definition document_upload :: "env \<Rightarrow> string \<Rightarrow> nat \<Rightarrow> json act" where
  "document_upload env organizationId itemIndex =
     bindA (reqStr env ''binaryPropertyName'' itemIndex) (\<lambda>binaryPropertyName.
       upload_item env organizationId binaryPropertyName
         (optStr env ''documentName'' itemIndex [])
         (optStr env ''tagIds'' itemIndex [])
         (optJson env ''metadata'' itemIndex (JObj []))
         itemIndex)"

definition document_get :: "env \<Rightarrow> string \<Rightarrow> nat \<Rightarrow> json act" where
  "document_get env organizationId itemIndex =
     bindA (reqStr env ''documentId'' itemIndex) (\<lambda>documentId.
       let fileType = optStr env ''fileType'' itemIndex ''original''
       in httpRequestWithAuthentication env
            (org_request env ''GET'' (''/v0/orgs/'' @ organizationId @ ''/documents/'' @ documentId)
               [(''file_type'', JStr fileType)] None))"

text \<open>
  The metadata of an update: \<open>if (metadataParam) { ... if (Object.keys(metadata).length > 0)
  body.metadata = metadata }\<close>.
\<close>

definition document_update_metadata :: "env \<Rightarrow> json \<Rightarrow> (string \<times> json) list \<Rightarrow> error + (string \<times> json) list" where
  "document_update_metadata env metadataParam body0 =
     (if truthy metadataParam then
        (case parse_if_string env metadataParam ''{}'' of
           Inl e \<Rightarrow> Inl e
         | Inr metadata \<Rightarrow>
             (case keys_length metadata of
                Inl e \<Rightarrow> Inl e
              | Inr n \<Rightarrow> Inr (set_if (0 < n) ''metadata'' metadata body0)))
      else Inr body0)"

definition document_update :: "env \<Rightarrow> string \<Rightarrow> nat \<Rightarrow> json act" where
  "document_update env organizationId itemIndex =
     bindA (reqStr env ''documentId'' itemIndex) (\<lambda>documentId.
       let newDocumentName = optStr env ''newDocumentName'' itemIndex [];
           tagIdsParam = optStr env ''tagIds'' itemIndex [];
           metadataParam = optJson env ''metadata'' itemIndex (JObj []);
           body1 = set_if (newDocumentName \<noteq> []) ''document_name'' (JStr newDocumentName) [];
           body2 = set_if (tagIdsParam \<noteq> []) ''tag_ids'' (JArr (map JStr (split_ids tagIdsParam))) body1
       in bindA (liftE (document_update_metadata env metadataParam body2)) (\<lambda>body3.
            bindA (httpRequestWithAuthentication env
                     (org_request env ''PUT'' (''/v0/orgs/'' @ organizationId @ ''/documents/'' @ documentId)
                        [] (Some (JObj body3)))) (\<lambda>response.
              returnA (nullish response (JObj [(''success'', JBool True)])))))"

definition document_delete :: "env \<Rightarrow> string \<Rightarrow> nat \<Rightarrow> json act" where
  "document_delete env organizationId itemIndex =
     bindA (reqStr env ''documentId'' itemIndex) (\<lambda>documentId.
       bindA (httpRequestWithAuthentication env
                (org_request env ''DELETE'' (''/v0/orgs/'' @ organizationId @ ''/documents/'' @ documentId)
                   [] None)) (\<lambda>_.
         returnA (JObj [(''success'', JBool True), (''documentId'', JStr documentId)])))"

definition document_step :: "env \<Rightarrow> string \<Rightarrow> string \<Rightarrow> nat \<Rightarrow> json act" where
  "document_step env organizationId operation itemIndex =
     (if operation = ''upload'' then document_upload env organizationId itemIndex
      else if operation = ''get'' then document_get env organizationId itemIndex
      else if operation = ''update'' then document_update env organizationId itemIndex
      else if operation = ''delete'' then document_delete env organizationId itemIndex
      else throwA (unknown_operation operation))"

definition execute_Document :: "env \<Rightarrow> entry list act" where
  "execute_Document env =
     bindA (reqStr env ''operation'' 0) (\<lambda>operation.
       bindA (resolve_organization env org_message_document) (\<lambda>organizationId.
         if operation = ''list'' then run_once env (document_list env organizationId)
         else item_loop env annotate (document_step env organizationId operation)))"

section \<open>The Tag node\<close>

definition tag_list :: "env \<Rightarrow> string \<Rightarrow> json act" where
  "tag_list env organizationId =
     (let limit = optNum env ''limit'' 0 10;
          skip = optNum env ''skip'' 0 0;
          nameSearch = optStr env ''nameSearch'' 0 [];
          qs0 = [(''limit'', JNum limit), (''skip'', JNum skip)];
          qs1 = set_if (trim nameSearch \<noteq> []) ''name_search'' (JStr (trim nameSearch)) qs0
      in httpRequestWithAuthentication env
           (org_request env ''GET'' (''/v0/orgs/'' @ organizationId @ ''/tags'') qs1 None))"

definition tag_get :: "env \<Rightarrow> string \<Rightarrow> nat \<Rightarrow> json act" where
  "tag_get env organizationId itemIndex =
     bindA (reqStr env ''tagId'' itemIndex) (\<lambda>tagId.
       httpRequestWithAuthentication env
         (org_request env ''GET'' (''/v0/orgs/'' @ organizationId @ ''/tags/'' @ tagId) [] None))"

definition tag_body :: "string \<Rightarrow> string \<Rightarrow> string \<Rightarrow> (string \<times> json) list" where
  "tag_body tagName color description =
     (let body0 = [(''name'', JStr (trim tagName))];
          body1 = set_if (trim color \<noteq> []) ''color'' (JStr (trim color)) body0
      in set_if (trim description \<noteq> []) ''description'' (JStr (trim description)) body1)"

definition tag_create :: "env \<Rightarrow> string \<Rightarrow> nat \<Rightarrow> json act" where
  "tag_create env organizationId itemIndex =
     bindA (reqStr env ''tagName'' itemIndex) (\<lambda>tagName.
       let color = optStr env ''color'' itemIndex [];
           description = optStr env ''description'' itemIndex []
       in httpRequestWithAuthentication env
            (org_request env ''POST'' (''/v0/orgs/'' @ organizationId @ ''/tags'') []
               (Some (JObj (tag_body tagName color description)))))"

definition tag_update :: "env \<Rightarrow> string \<Rightarrow> nat \<Rightarrow> json act" where
  "tag_update env organizationId itemIndex =
     bindA (reqStr env ''tagId'' itemIndex) (\<lambda>tagId.
       bindA (reqStr env ''tagName'' itemIndex) (\<lambda>tagName.
         let color = optStr env ''color'' itemIndex [];
             description = optStr env ''description'' itemIndex []
         in httpRequestWithAuthentication env
              (org_request env ''PUT'' (''/v0/orgs/'' @ organizationId @ ''/tags/'' @ tagId) []
                 (Some (JObj (tag_body tagName color description))))))"

definition tag_delete :: "env \<Rightarrow> string \<Rightarrow> nat \<Rightarrow> json act" where
  "tag_delete env organizationId itemIndex =
     bindA (reqStr env ''tagId'' itemIndex) (\<lambda>tagId.
       bindA (httpRequestWithAuthentication env
                (org_request env ''DELETE'' (''/v0/orgs/'' @ organizationId @ ''/tags/'' @ tagId) [] None)) (\<lambda>_.
         returnA (JObj [(''success'', JBool True), (''tagId'', JStr tagId)])))"

definition tag_step :: "env \<Rightarrow> string \<Rightarrow> string \<Rightarrow> nat \<Rightarrow> json act" where
  "tag_step env organizationId operation itemIndex =
     (if operation = ''get'' then tag_get env organizationId itemIndex
      else if operation = ''create'' then tag_create env organizationId itemIndex
      else if operation = ''update'' then tag_update env organizationId itemIndex
      else if operation = ''delete'' then tag_delete env organizationId itemIndex
      else throwA (unknown_operation operation))"

definition execute_Tag :: "env \<Rightarrow> entry list act" where
  "execute_Tag env =
     bindA (reqStr env ''operation'' 0) (\<lambda>operation.
       bindA (resolve_organization env org_message) (\<lambda>organizationId.
         if operation = ''list'' then run_once env (tag_list env organizationId)
         else item_loop env annotate (tag_step env organizationId operation)))"

section \<open>The Schema node\<close>

definition arrow :: string where
  "arrow = [CHR 0xE2, CHR 0x86, CHR 0x92]"

definition custom_call_hint :: "string \<Rightarrow> string" where
  "custom_call_hint supported =
     ''For custom API calls, use the HTTP Request node and choose '' @ [CHR 0x22]
     @ ''DocRouter Organization API'' @ [CHR 0x22] @ '' under Authentication '' @ arrow
     @ '' Predefined Credential Type. This node only supports '' @ supported @ ''.''"

text \<open>
  The \<open>default:\<close> branch of the nodes that know the host's passthrough operation name.
\<close>

definition default_case :: "string \<Rightarrow> string \<Rightarrow> json act" where
  "default_case hint operation =
     (if operation = custom_api_call then throwA (NodeOperationError hint None)
      else throwA (unknown_operation operation))"

definition schema_list :: "env \<Rightarrow> string \<Rightarrow> json act" where
  "schema_list env organizationId =
     (let limit = optNum env ''limit'' 0 10;
          skip = optNum env ''skip'' 0 0;
          nameSearch = optStr env ''nameSearch'' 0 [];
          qs0 = [(''limit'', JNum limit), (''skip'', JNum skip)];
          qs1 = set_if (trim nameSearch \<noteq> []) ''name_search'' (JStr (trim nameSearch)) qs0
      in httpRequestWithAuthentication env
           (org_request env ''GET'' (''/v0/orgs/'' @ organizationId @ ''/schemas'') qs1 None))"

definition schema_listVersions :: "env \<Rightarrow> string \<Rightarrow> json act" where
  "schema_listVersions env organizationId =
     bindA (reqStr env ''schemaId'' 0) (\<lambda>schemaId.
       httpRequestWithAuthentication env
         (org_request env ''GET''
            (''/v0/orgs/'' @ organizationId @ ''/schemas/'' @ schemaId @ ''/versions'') [] None))"

definition schema_validate :: "env \<Rightarrow> string \<Rightarrow> json act" where
  "schema_validate env organizationId =
     bindA (reqStr env ''schemaRevid'' 0) (\<lambda>schemaRevid.
       bindA (reqJson env ''validateData'' 0) (\<lambda>validateDataParam.
         bindA (liftE (parse_if_string env validateDataParam ''{}'')) (\<lambda>validateData.
           httpRequestWithAuthentication env
             (org_request env ''POST''
                (''/v0/orgs/'' @ organizationId @ ''/schemas/'' @ schemaRevid @ ''/validate'') []
                (Some validateData)))))"

definition schema_get :: "env \<Rightarrow> string \<Rightarrow> nat \<Rightarrow> json act" where
  "schema_get env organizationId itemIndex =
     bindA (reqStr env ''schemaRevid'' itemIndex) (\<lambda>schemaRevid.
       httpRequestWithAuthentication env
         (org_request env ''GET'' (''/v0/orgs/'' @ organizationId @ ''/schemas/'' @ schemaRevid) [] None))"

definition schema_create :: "env \<Rightarrow> string \<Rightarrow> nat \<Rightarrow> json act" where
  "schema_create env organizationId itemIndex =
     bindA (reqStr env ''name'' itemIndex) (\<lambda>name.
       bindA (reqJson env ''jsonSchema'' itemIndex) (\<lambda>jsonSchemaParam.
         bindA (liftE (parse_if_string env jsonSchemaParam ''{}'')) (\<lambda>jsonSchema.
           httpRequestWithAuthentication env
             (org_request env ''POST'' (''/v0/orgs/'' @ organizationId @ ''/schemas'') []
                (Some (JObj [(''name'', JStr (trim name)), (''json_schema'', jsonSchema)]))))))"

definition schema_update :: "env \<Rightarrow> string \<Rightarrow> nat \<Rightarrow> json act" where
  "schema_update env organizationId itemIndex =
     bindA (reqStr env ''schemaId'' itemIndex) (\<lambda>schemaId.
       bindA (reqStr env ''name'' itemIndex) (\<lambda>name.
         bindA (reqJson env ''jsonSchema'' itemIndex) (\<lambda>jsonSchemaParam.
           bindA (liftE (parse_if_string env jsonSchemaParam ''{}'')) (\<lambda>jsonSchema.
             httpRequestWithAuthentication env
               (org_request env ''PUT'' (''/v0/orgs/'' @ organizationId @ ''/schemas/'' @ schemaId) []
                  (Some (JObj [(''name'', JStr (trim name)), (''json_schema'', jsonSchema)])))))))"

definition schema_delete :: "env \<Rightarrow> string \<Rightarrow> nat \<Rightarrow> json act" where
  "schema_delete env organizationId itemIndex =
     bindA (reqStr env ''schemaId'' itemIndex) (\<lambda>schemaId.
       bindA (httpRequestWithAuthentication env
                (org_request env ''DELETE'' (''/v0/orgs/'' @ organizationId @ ''/schemas/'' @ schemaId) [] None)) (\<lambda>_.
         returnA (JObj [(''success'', JBool True), (''schemaId'', JStr schemaId)])))"

definition schema_hint :: string where
  "schema_hint = custom_call_hint ''List, Get, Create, Update, Delete, Validate, and List Versions''"

definition schema_step :: "env \<Rightarrow> string \<Rightarrow> string \<Rightarrow> nat \<Rightarrow> json act" where
  "schema_step env organizationId operation itemIndex =
     (if operation = ''get'' then schema_get env organizationId itemIndex
      else if operation = ''create'' then schema_create env organizationId itemIndex
      else if operation = ''update'' then schema_update env organizationId itemIndex
      else if operation = ''delete'' then schema_delete env organizationId itemIndex
      else default_case schema_hint operation)"

definition execute_Schema :: "env \<Rightarrow> entry list act" where
  "execute_Schema env =
     bindA (reqStr env ''operation'' 0) (\<lambda>operation.
       bindA (resolve_organization env org_message) (\<lambda>organizationId.
         if operation = ''list'' then run_once env (schema_list env organizationId)
         else if operation = ''listVersions'' then run_once env (schema_listVersions env organizationId)
         else if operation = ''validate'' then run_once env (schema_validate env organizationId)
         else item_loop env annotate (schema_step env organizationId operation)))"

section \<open>The LLM node\<close>

definition llm_run :: "env \<Rightarrow> string \<Rightarrow> string \<Rightarrow> string \<Rightarrow> nat \<Rightarrow> json act" where
  "llm_run env organizationId documentId promptRevid itemIndex =
     (let force = optBool env ''force'' itemIndex False
      in httpRequestWithAuthentication env
           (org_request env ''POST'' (''/v0/orgs/'' @ organizationId @ ''/llm/run/'' @ documentId)
              [(''prompt_revid'', JStr (if promptRevid \<noteq> [] then promptRevid else ''default'')),
               (''force'', JBool force)] None))"

definition llm_get :: "env \<Rightarrow> string \<Rightarrow> string \<Rightarrow> string \<Rightarrow> nat \<Rightarrow> json act" where
  "llm_get env organizationId documentId promptRevid itemIndex =
     (let fallback = optBool env ''fallback'' itemIndex False
      in httpRequestWithAuthentication env
           (org_request env ''GET'' (''/v0/orgs/'' @ organizationId @ ''/llm/result/'' @ documentId)
              [(''prompt_revid'', JStr (if promptRevid \<noteq> [] then promptRevid else ''default'')),
               (''fallback'', JBool fallback)] None))"

definition llm_update :: "env \<Rightarrow> string \<Rightarrow> string \<Rightarrow> string \<Rightarrow> nat \<Rightarrow> json act" where
  "llm_update env organizationId documentId promptRevid itemIndex =
     bindA (reqJson env ''updatedLlmResult'' itemIndex) (\<lambda>updatedLlmResultParam.
       let isVerified = optBool env ''isVerified'' itemIndex False
       in bindA (liftE (parse_if_string env updatedLlmResultParam ''{}'')) (\<lambda>updatedLlmResult.
            if trim promptRevid = [] then
              throwA (NodeOperationError ''Prompt Revision ID is required for Update.'' (Some itemIndex))
            else
              httpRequestWithAuthentication env
                (org_request env ''PUT'' (''/v0/orgs/'' @ organizationId @ ''/llm/result/'' @ documentId)
                   [(''prompt_revid'', JStr (trim promptRevid))]
                   (Some (JObj [(''updated_llm_result'', updatedLlmResult),
                                (''is_verified'', JBool isVerified)])))))"

definition llm_delete :: "env \<Rightarrow> string \<Rightarrow> string \<Rightarrow> string \<Rightarrow> nat \<Rightarrow> json act" where
  "llm_delete env organizationId documentId promptRevid itemIndex =
     (if trim promptRevid = [] then
        throwA (NodeOperationError ''Prompt Revision ID is required for Delete.'' (Some itemIndex))
      else
        bindA (httpRequestWithAuthentication env
                 (org_request env ''DELETE'' (''/v0/orgs/'' @ organizationId @ ''/llm/result/'' @ documentId)
                    [(''prompt_revid'', JStr (trim promptRevid))] None)) (\<lambda>_.
          returnA (JObj [(''success'', JBool True), (''documentId'', JStr documentId),
                         (''promptRevid'', JStr (trim promptRevid))])))"

definition llm_hint :: string where
  "llm_hint = custom_call_hint ''Run, Get, Update, and Delete''"

definition llm_step :: "env \<Rightarrow> string \<Rightarrow> string \<Rightarrow> nat \<Rightarrow> json act" where
  "llm_step env organizationId operation itemIndex =
     bindA (reqStr env ''documentId'' itemIndex) (\<lambda>documentId.
       let promptRevid = optStr env ''promptRevid'' itemIndex ''default''
       in if operation = ''run'' then llm_run env organizationId documentId promptRevid itemIndex
          else if operation = ''get'' then llm_get env organizationId documentId promptRevid itemIndex
          else if operation = ''update'' then llm_update env organizationId documentId promptRevid itemIndex
          else if operation = ''delete'' then llm_delete env organizationId documentId promptRevid itemIndex
          else default_case llm_hint operation)"

definition execute_LLM :: "env \<Rightarrow> entry list act" where
  "execute_LLM env =
     bindA (reqStr env ''operation'' 0) (\<lambda>operation.
       bindA (resolve_organization env org_message) (\<lambda>organizationId.
         item_loop env annotate (llm_step env organizationId operation)))"

section \<open>The DocRouter node\<close>

definition execute_DocRouter :: "env \<Rightarrow> entry list act" where
  "execute_DocRouter env =
     bindA (reqStr env ''operation'' 0) (\<lambda>operation.
       if operation \<noteq> ''upload'' then throwA (unknown_operation operation)
       else
         bindA (reqStr env ''organizationId'' 0) (\<lambda>organizationId.
           bindA (reqStr env ''binaryPropertyName'' 0) (\<lambda>binaryPropertyName.
             let documentNameParam = optStr env ''documentName'' 0 [];
                 tagIdsParam = optStr env ''tagIds'' 0 [];
                 metadataParam = optJson env ''metadata'' 0 (JObj [])
             in item_loop env annotate
                  (upload_item env organizationId binaryPropertyName documentNameParam
                     tagIdsParam metadataParam))))"

section \<open>The Account node\<close>

definition account_runOnce :: "string list" where
  "account_runOnce = [''listUsers'', ''listOrganizations'', ''getUser'', ''getOrganization'']"

definition account_listUsers :: "env \<Rightarrow> json act" where
  "account_listUsers env =
     (let limit = optNum env ''limit'' 0 10;
          skip = optNum env ''skip'' 0 0;
          organizationIdFilter = optStr env ''organizationIdFilter'' 0 [];
          searchName = optStr env ''searchName'' 0 [];
          qs0 = [(''limit'', JNum limit), (''skip'', JNum skip)];
          qs1 = set_if (trim organizationIdFilter \<noteq> []) ''organization_id''
                  (JStr (trim organizationIdFilter)) qs0;
          qs2 = set_if (trim searchName \<noteq> []) ''search_name'' (JStr (trim searchName)) qs1
      in httpRequestWithAuthentication env (account_request env ''GET'' ''/v0/account/users'' qs2 None))"

definition account_getUser :: "env \<Rightarrow> json act" where
  "account_getUser env =
     bindA (reqStr env ''userId'' 0) (\<lambda>userId.
       httpRequestWithAuthentication env
         (account_request env ''GET'' ''/v0/account/users'' [(''user_id'', JStr (trim userId))] None))"

definition account_listOrganizations :: "env \<Rightarrow> json act" where
  "account_listOrganizations env =
     (let limit = optNum env ''orgLimit'' 0 10;
          skip = optNum env ''orgSkip'' 0 0;
          userId = optStr env ''orgUserId'' 0 [];
          nameSearch = optStr env ''nameSearch'' 0 [];
          memberSearch = optStr env ''memberSearch'' 0 [];
          qs0 = [(''limit'', JNum limit), (''skip'', JNum skip)];
          qs1 = set_if (trim userId \<noteq> []) ''user_id'' (JStr (trim userId)) qs0;
          qs2 = set_if (trim nameSearch \<noteq> []) ''name_search'' (JStr (trim nameSearch)) qs1;
          qs3 = set_if (trim memberSearch \<noteq> []) ''member_search'' (JStr (trim memberSearch)) qs2
      in httpRequestWithAuthentication env
           (account_request env ''GET'' ''/v0/account/organizations'' qs3 None))"

definition account_getOrganization :: "env \<Rightarrow> json act" where
  "account_getOrganization env =
     bindA (reqStr env ''organizationId'' 0) (\<lambda>organizationId.
       httpRequestWithAuthentication env
         (account_request env ''GET'' ''/v0/account/organizations''
            [(''organization_id'', JStr (trim organizationId))] None))"

definition account_once :: "env \<Rightarrow> string \<Rightarrow> json act" where
  "account_once env operation =
     (if operation = ''listUsers'' then account_listUsers env
      else if operation = ''getUser'' then account_getUser env
      else if operation = ''listOrganizations'' then account_listOrganizations env
      else account_getOrganization env)"

definition account_createUser :: "env \<Rightarrow> nat \<Rightarrow> json act" where
  "account_createUser env i =
     bindA (reqStr env ''email'' i) (\<lambda>email.
       bindA (reqStr env ''userName'' i) (\<lambda>userName.
         bindA (reqStr env ''password'' i) (\<lambda>password.
           httpRequestWithAuthentication env
             (account_request env ''POST'' ''/v0/account/users'' []
                (Some (JObj [(''email'', JStr (trim email)), (''name'', JStr (trim userName)),
                             (''password'', JStr password)]))))))"

text \<open>
  \<open>if ('k' in nodeParams && nodeParams.k != null) body.field = value\<close>, the value being
  computed from the raw parameter.
\<close>

definition set_from_node_param :: "env \<Rightarrow> string \<Rightarrow> string \<Rightarrow> (json \<Rightarrow> json) \<Rightarrow> (string \<times> json) list \<Rightarrow> (string \<times> json) list" where
  "set_from_node_param env k field f obj =
     (case node_param env k of None \<Rightarrow> obj | Some raw \<Rightarrow> AList.update field (f raw) obj)"

definition updateUser_body :: "env \<Rightarrow> nat \<Rightarrow> (string \<times> json) list" where
  "updateUser_body env i =
     (let userNameUpdate = optStr env ''userNameUpdate'' i [];
          passwordUpdate = optStr env ''passwordUpdate'' i [];
          role = optStr env ''role'' i [];
          body1 = set_if (userNameUpdate \<noteq> []) ''name'' (JStr (trim userNameUpdate)) [];
          body2 = set_if (passwordUpdate \<noteq> []) ''password'' (JStr passwordUpdate) body1;
          body3 = set_from_node_param env ''role'' ''role''
                    (\<lambda>raw. if role \<noteq> [] then JStr role else raw) body2;
          body4 = set_from_node_param env ''emailVerified'' ''email_verified'' (\<lambda>raw. raw) body3
      in set_from_node_param env ''hasSeenTour'' ''has_seen_tour'' (\<lambda>raw. raw) body4)"

definition updateUser_empty :: error where
  "updateUser_empty =
     NodeOperationError
       ''Provide at least one field to update (name, password, role, email verified, or has seen tour).''
       None"

definition account_updateUser :: "env \<Rightarrow> nat \<Rightarrow> json act" where
  "account_updateUser env i =
     bindA (reqStr env ''userId'' i) (\<lambda>userId.
       let body = updateUser_body env i
       in if body = [] then throwA updateUser_empty
          else httpRequestWithAuthentication env
                 (account_request env ''PUT'' (''/v0/account/users/'' @ trim userId) []
                    (Some (JObj body))))"

definition account_deleteUser :: "env \<Rightarrow> nat \<Rightarrow> json act" where
  "account_deleteUser env i =
     bindA (reqStr env ''userId'' i) (\<lambda>userId.
       bindA (httpRequestWithAuthentication env
                (account_request env ''DELETE'' (''/v0/account/users/'' @ trim userId) [] None)) (\<lambda>_.
         returnA (JObj [(''success'', JBool True), (''user_id'', JStr (trim userId))])))"

definition account_createOrganization :: "env \<Rightarrow> nat \<Rightarrow> json act" where
  "account_createOrganization env i =
     bindA (reqStr env ''orgName'' i) (\<lambda>orgName.
       let orgType = optStr env ''orgType'' i ''individual''
       in httpRequestWithAuthentication env
            (account_request env ''POST'' ''/v0/account/organizations'' []
               (Some (JObj [(''name'', JStr (trim orgName)),
                            (''type'', JStr (if orgType \<noteq> [] then orgType else ''individual''))]))))"

text \<open>
  The members of an organization update: parsed only when the text is not blank, and a
  parse failure is turned into the node's own error.
\<close>

definition updateOrganization_members :: "env \<Rightarrow> string \<Rightarrow> (string \<times> json) list \<Rightarrow> error + (string \<times> json) list" where
  "updateOrganization_members env membersParam body0 =
     (if membersParam \<noteq> [] \<and> trim membersParam \<noteq> [] then
        (case JSON_parse env (trim membersParam) of
           Inl m \<Rightarrow> Inl (NodeOperationError ''Members must be a valid JSON array'' None)
         | Inr members \<Rightarrow> Inr (AList.update ''members'' members body0))
      else Inr body0)"

definition updateOrganization_body :: "env \<Rightarrow> nat \<Rightarrow> error + (string \<times> json) list" where
  "updateOrganization_body env i =
     (let orgNameUpdate = optStr env ''orgNameUpdate'' i [];
          orgTypeUpdate = optStr env ''orgTypeUpdate'' i [];
          membersParam = optStr env ''members'' i [];
          body1 = set_if (orgNameUpdate \<noteq> []) ''name'' (JStr (trim orgNameUpdate)) [];
          body2 = set_from_node_param env ''orgTypeUpdate'' ''type''
                    (\<lambda>raw. if orgTypeUpdate \<noteq> [] then JStr orgTypeUpdate else raw) body1
      in updateOrganization_members env membersParam body2)"

definition account_updateOrganization :: "env \<Rightarrow> nat \<Rightarrow> json act" where
  "account_updateOrganization env i =
     bindA (reqStr env ''organizationId'' i) (\<lambda>organizationId.
       bindA (liftE (updateOrganization_body env i)) (\<lambda>body.
         httpRequestWithAuthentication env
           (account_request env ''PUT'' (''/v0/account/organizations/'' @ trim organizationId) []
              (Some (JObj body)))))"

definition account_deleteOrganization :: "env \<Rightarrow> nat \<Rightarrow> json act" where
  "account_deleteOrganization env i =
     bindA (reqStr env ''organizationId'' i) (\<lambda>organizationId.
       bindA (httpRequestWithAuthentication env
                (account_request env ''DELETE'' (''/v0/account/organizations/'' @ trim organizationId)
                   [] None)) (\<lambda>_.
         returnA (JObj [(''success'', JBool True), (''organization_id'', JStr (trim organizationId))])))"

definition account_hint :: string where
  "account_hint =
     ''For custom API calls, use the HTTP Request node with DocRouter Account API credentials. This node only supports account users and organizations operations.''"

definition account_step :: "env \<Rightarrow> string \<Rightarrow> nat \<Rightarrow> json act" where
  "account_step env operation i =
     (if operation = ''createUser'' then account_createUser env i
      else if operation = ''updateUser'' then account_updateUser env i
      else if operation = ''deleteUser'' then account_deleteUser env i
      else if operation = ''createOrganization'' then account_createOrganization env i
      else if operation = ''updateOrganization'' then account_updateOrganization env i
      else if operation = ''deleteOrganization'' then account_deleteOrganization env i
      else default_case account_hint operation)"

text \<open>The node's \<open>handleError\<close> throws the error again as it is.\<close>

definition execute_Account :: "env \<Rightarrow> entry list act" where
  "execute_Account env =
     bindA (reqStr env ''operation'' 0) (\<lambda>operation.
       if operation \<in> set account_runOnce then run_once env (account_once env operation)
       else item_loop env (\<lambda>i e. e) (account_step env operation))"

section \<open>The Knowledge Base node\<close>

definition kb_runOnce :: "string list" where
  "kb_runOnce =
     [''list'', ''listDocuments'', ''listChunks'', ''search'', ''chat'', ''reconcile'', ''reconcileAll'']"

definition kb_list :: "env \<Rightarrow> string \<Rightarrow> json act" where
  "kb_list env organizationId =
     (let limit = optNum env ''limit'' 0 10;
          skip = optNum env ''skip'' 0 0;
          nameSearch = optStr env ''nameSearch'' 0 [];
          qs0 = [(''limit'', JNum limit), (''skip'', JNum skip)];
          qs1 = set_if (trim nameSearch \<noteq> []) ''name_search'' (JStr (trim nameSearch)) qs0
      in httpRequestWithAuthentication env
           (org_request env ''GET'' (''/v0/orgs/'' @ organizationId @ ''/knowledge-bases'') qs1 None))"

definition kb_listDocuments :: "env \<Rightarrow> string \<Rightarrow> json act" where
  "kb_listDocuments env organizationId =
     bindA (reqStr env ''kbId'' 0) (\<lambda>kbId.
       let listLimit = optNum env ''listLimit'' 0 10;
           listSkip = optNum env ''listSkip'' 0 0
       in httpRequestWithAuthentication env
            (org_request env ''GET''
               (''/v0/orgs/'' @ organizationId @ ''/knowledge-bases/'' @ kbId @ ''/documents'')
               [(''limit'', JNum listLimit), (''skip'', JNum listSkip)] None))"

definition kb_listChunks :: "env \<Rightarrow> string \<Rightarrow> json act" where
  "kb_listChunks env organizationId =
     bindA (reqStr env ''kbId'' 0) (\<lambda>kbId.
       bindA (reqStr env ''documentId'' 0) (\<lambda>documentId.
         let chunksLimit = optNum env ''chunksLimit'' 0 100;
             chunksSkip = optNum env ''chunksSkip'' 0 0
         in httpRequestWithAuthentication env
              (org_request env ''GET''
                 (''/v0/orgs/'' @ organizationId @ ''/knowledge-bases/'' @ kbId @ ''/documents/''
                  @ documentId @ ''/chunks'')
                 [(''limit'', JNum chunksLimit), (''skip'', JNum chunksSkip)] None)))"

text \<open>\<open>if (Object.keys(filter).length > 0) body.metadata_filter = filter\<close>\<close>

definition set_metadata_filter :: "json \<Rightarrow> (string \<times> json) list \<Rightarrow> error + (string \<times> json) list" where
  "set_metadata_filter metadataFilter body0 =
     (case keys_length metadataFilter of
        Inl e \<Rightarrow> Inl e
      | Inr n \<Rightarrow> Inr (set_if (0 < n) ''metadata_filter'' metadataFilter body0))"

definition kb_search :: "env \<Rightarrow> string \<Rightarrow> json act" where
  "kb_search env organizationId =
     bindA (reqStr env ''kbId'' 0) (\<lambda>kbId.
       bindA (reqStr env ''searchQuery'' 0) (\<lambda>searchQuery.
         let topK = optNum env ''topK'' 0 5;
             searchSkip = optNum env ''searchSkip'' 0 0;
             metadataFilterParam = optJson env ''metadataFilter'' 0 (JStr ''{}'')
         in bindA (liftE (parse_if_string env metadataFilterParam ''{}'')) (\<lambda>metadataFilter.
              let body0 = [(''query'', JStr (trim searchQuery)), (''top_k'', JNum topK),
                           (''skip'', JNum searchSkip)]
              in bindA (liftE (set_metadata_filter metadataFilter body0)) (\<lambda>body1.
                   let body2 = set_from_node_param env ''coalesceNeighborsSearch''
                                 ''coalesce_neighbors'' (\<lambda>raw. raw) body1
                   in httpRequestWithAuthentication env
                        (org_request env ''POST''
                           (''/v0/orgs/'' @ organizationId @ ''/knowledge-bases/'' @ kbId @ ''/search'')
                           [] (Some (JObj body2)))))))"

definition kb_chat :: "env \<Rightarrow> string \<Rightarrow> json act" where
  "kb_chat env organizationId =
     bindA (reqStr env ''kbId'' 0) (\<lambda>kbId.
       bindA (reqStr env ''chatModel'' 0) (\<lambda>chatModel.
         bindA (reqJson env ''messages'' 0) (\<lambda>messagesParam.
           let temperature = optNum env ''temperature'' 0 (7 / 10);
               stream = optBool env ''stream'' 0 True;
               chatMetadataFilterParam = optJson env ''chatMetadataFilter'' 0 (JStr ''{}'')
           in bindA (liftE (parse_if_string env messagesParam ''[]'')) (\<lambda>messages.
                bindA (liftE (parse_if_string env chatMetadataFilterParam ''{}'')) (\<lambda>chatMetadataFilter.
                  let body0 = [(''model'', JStr (trim chatModel)), (''messages'', messages),
                               (''temperature'', JNum temperature), (''stream'', JBool stream)];
                      body1 = set_from_node_param env ''maxTokens'' ''max_tokens'' (\<lambda>raw. raw) body0
                  in bindA (liftE (set_metadata_filter chatMetadataFilter body1)) (\<lambda>body2.
                       httpRequestWithAuthentication env
                         (org_request env ''POST''
                            (''/v0/orgs/'' @ organizationId @ ''/knowledge-bases/'' @ kbId @ ''/chat'')
                            [] (Some (JObj body2)))))))))"

definition kb_reconcile :: "env \<Rightarrow> string \<Rightarrow> json act" where
  "kb_reconcile env organizationId =
     bindA (reqStr env ''kbId'' 0) (\<lambda>kbId.
       let dryRun = optBool env ''dryRun'' 0 False
       in httpRequestWithAuthentication env
            (org_request env ''POST''
               (''/v0/orgs/'' @ organizationId @ ''/knowledge-bases/'' @ kbId @ ''/reconcile'')
               [(''dry_run'', JBool dryRun)] None))"

definition kb_reconcileAll :: "env \<Rightarrow> string \<Rightarrow> json act" where
  "kb_reconcileAll env organizationId =
     (let dryRun = optBool env ''dryRun'' 0 False
      in httpRequestWithAuthentication env
           (org_request env ''POST''
              (''/v0/orgs/'' @ organizationId @ ''/knowledge-bases/reconcile-all'')
              [(''dry_run'', JBool dryRun)] None))"

definition kb_once :: "env \<Rightarrow> string \<Rightarrow> string \<Rightarrow> json act" where
  "kb_once env organizationId operation =
     (if operation = ''list'' then kb_list env organizationId
      else if operation = ''listDocuments'' then kb_listDocuments env organizationId
      else if operation = ''listChunks'' then kb_listChunks env organizationId
      else if operation = ''search'' then kb_search env organizationId
      else if operation = ''chat'' then kb_chat env organizationId
      else if operation = ''reconcile'' then kb_reconcile env organizationId
      else kb_reconcileAll env organizationId)"

definition kb_get :: "env \<Rightarrow> string \<Rightarrow> nat \<Rightarrow> json act" where
  "kb_get env organizationId itemIndex =
     bindA (reqStr env ''kbId'' itemIndex) (\<lambda>kbId.
       httpRequestWithAuthentication env
         (org_request env ''GET'' (''/v0/orgs/'' @ organizationId @ ''/knowledge-bases/'' @ kbId) [] None))"

text \<open>\<open>tagIdsStr?.trim() ? tagIdsStr.split(',').map((id) => id.trim()).filter(Boolean) : []\<close>\<close>

definition kb_tag_ids :: "string \<Rightarrow> json" where
  "kb_tag_ids tagIdsStr =
     JArr (map JStr (if trim tagIdsStr \<noteq> [] then split_ids tagIdsStr else []))"

definition set_reconcile_interval :: "bool \<Rightarrow> rat option \<Rightarrow> (string \<times> json) list \<Rightarrow> (string \<times> json) list" where
  "set_reconcile_interval reconcileEnabled reconcileIntervalSeconds body0 =
     (case reconcileIntervalSeconds of
        None \<Rightarrow> body0
      | Some n \<Rightarrow> set_if (reconcileEnabled \<and> 60 \<le> n) ''reconcile_interval_seconds'' (JNum n) body0)"

definition kb_create_body :: "env \<Rightarrow> string \<Rightarrow> nat \<Rightarrow> (string \<times> json) list" where
  "kb_create_body env name itemIndex =
     (let description = optStr env ''description'' itemIndex [];
          tagIdsStr = optStr env ''tagIds'' itemIndex [];
          chunkerType = optStr env ''chunkerType'' itemIndex ''recursive'';
          chunkSize = optNum env ''chunkSize'' itemIndex 512;
          chunkOverlap = optNum env ''chunkOverlap'' itemIndex 128;
          embeddingModel = optStr env ''embeddingModel'' itemIndex ''text-embedding-3-small'';
          coalesceNeighbors = optNum env ''coalesceNeighbors'' itemIndex 0;
          reconcileEnabled = optBool env ''reconcileEnabled'' itemIndex False;
          reconcileIntervalSeconds = optNumU env ''reconcileIntervalSeconds'' itemIndex;
          body0 = [(''name'', JStr (trim name)),
                   (''description'', JStr (trim description)),
                   (''tag_ids'', kb_tag_ids tagIdsStr),
                   (''chunker_type'', JStr (if trim chunkerType \<noteq> [] then trim chunkerType else ''recursive'')),
                   (''chunk_size'', JNum chunkSize),
                   (''chunk_overlap'', JNum chunkOverlap),
                   (''embedding_model'', JStr (if trim embeddingModel \<noteq> [] then trim embeddingModel
                                               else ''text-embedding-3-small'')),
                   (''coalesce_neighbors'', JNum coalesceNeighbors),
                   (''reconcile_enabled'', JBool reconcileEnabled)]
      in set_reconcile_interval reconcileEnabled reconcileIntervalSeconds body0)"

definition kb_create :: "env \<Rightarrow> string \<Rightarrow> nat \<Rightarrow> json act" where
  "kb_create env organizationId itemIndex =
     bindA (reqStr env ''name'' itemIndex) (\<lambda>name.
       httpRequestWithAuthentication env
         (org_request env ''POST'' (''/v0/orgs/'' @ organizationId @ ''/knowledge-bases'') []
            (Some (JObj (kb_create_body env name itemIndex)))))"

definition kb_update_body :: "env \<Rightarrow> string \<Rightarrow> nat \<Rightarrow> (string \<times> json) list" where
  "kb_update_body env name itemIndex =
     (let description = optStr env ''description'' itemIndex [];
          tagIdsStr = optStr env ''tagIds'' itemIndex [];
          coalesceNeighbors = optNum env ''coalesceNeighbors'' itemIndex 0;
          reconcileEnabled = optBool env ''reconcileEnabled'' itemIndex False;
          reconcileIntervalSeconds = optNumU env ''reconcileIntervalSeconds'' itemIndex;
          body0 = [(''name'', JStr (trim name)),
                   (''description'', JStr (trim description)),
                   (''tag_ids'', kb_tag_ids tagIdsStr),
                   (''coalesce_neighbors'', JNum coalesceNeighbors),
                   (''reconcile_enabled'', JBool reconcileEnabled)]
      in set_reconcile_interval reconcileEnabled reconcileIntervalSeconds body0)"

definition kb_update :: "env \<Rightarrow> string \<Rightarrow> nat \<Rightarrow> json act" where
  "kb_update env organizationId itemIndex =
     bindA (reqStr env ''kbId'' itemIndex) (\<lambda>kbId.
       bindA (reqStr env ''name'' itemIndex) (\<lambda>name.
         httpRequestWithAuthentication env
           (org_request env ''PUT'' (''/v0/orgs/'' @ organizationId @ ''/knowledge-bases/'' @ kbId) []
              (Some (JObj (kb_update_body env name itemIndex))))))"

definition kb_delete :: "env \<Rightarrow> string \<Rightarrow> nat \<Rightarrow> json act" where
  "kb_delete env organizationId itemIndex =
     bindA (reqStr env ''kbId'' itemIndex) (\<lambda>kbId.
       bindA (httpRequestWithAuthentication env
                (org_request env ''DELETE'' (''/v0/orgs/'' @ organizationId @ ''/knowledge-bases/'' @ kbId)
                   [] None)) (\<lambda>_.
         returnA (JObj [(''success'', JBool True), (''kbId'', JStr kbId)])))"

definition kb_hint :: string where
  "kb_hint = custom_call_hint
     ''List, Get, Create, Update, Delete, List Documents, List Chunks, Search, Chat, Reconcile, and Reconcile All''"

definition kb_step :: "env \<Rightarrow> string \<Rightarrow> string \<Rightarrow> nat \<Rightarrow> json act" where
  "kb_step env organizationId operation itemIndex =
     (if operation = ''get'' then kb_get env organizationId itemIndex
      else if operation = ''create'' then kb_create env organizationId itemIndex
      else if operation = ''update'' then kb_update env organizationId itemIndex
      else if operation = ''delete'' then kb_delete env organizationId itemIndex
      else default_case kb_hint operation)"

definition execute_KnowledgeBase :: "env \<Rightarrow> entry list act" where
  "execute_KnowledgeBase env =
     bindA (reqStr env ''operation'' 0) (\<lambda>operation.
       bindA (resolve_organization env org_message) (\<lambda>organizationId.
         if operation \<in> set kb_runOnce then run_once env (kb_once env organizationId operation)
         else item_loop env annotate (kb_step env organizationId operation)))"

section \<open>All nodes\<close>

datatype node = Document | Tag | Schema | Account | LLM | DocRouter | KnowledgeBase

fun execute :: "node \<Rightarrow> env \<Rightarrow> entry list act" where
  "execute Document env = execute_Document env"
| "execute Tag env = execute_Tag env"
| "execute Schema env = execute_Schema env"
| "execute Account env = execute_Account env"
| "execute LLM env = execute_LLM env"
| "execute DocRouter env = execute_DocRouter env"
| "execute KnowledgeBase env = execute_KnowledgeBase env"

section \<open>Vocabulary for the properties\<close>

text \<open>
  Every \<open>execute\<close> first reads its operation (and, in five nodes, resolves the organization)
  and then either runs one block for the whole batch or enters the item loop. \<open>prelude\<close> is
  that first part on its own, returning what \<open>execute\<close> goes on to run; \<open>execute_prelude\<close>
  below shows that \<open>execute\<close> is the prelude followed by \<open>run_plan\<close>.
\<close>

datatype plan = Once "json act" | Loop "nat \<Rightarrow> error \<Rightarrow> error" "nat \<Rightarrow> json act"

fun run_plan :: "env \<Rightarrow> plan \<Rightarrow> entry list act" where
  "run_plan env (Once step) = run_once env step"
| "run_plan env (Loop rethrow step) = item_loop env rethrow step"

fun prelude :: "node \<Rightarrow> env \<Rightarrow> plan act" where
  "prelude Document env =
     bindA (reqStr env ''operation'' 0) (\<lambda>operation.
       bindA (resolve_organization env org_message_document) (\<lambda>organizationId.
         returnA (if operation = ''list'' then Once (document_list env organizationId)
                  else Loop annotate (document_step env organizationId operation))))"
| "prelude Tag env =
     bindA (reqStr env ''operation'' 0) (\<lambda>operation.
       bindA (resolve_organization env org_message) (\<lambda>organizationId.
         returnA (if operation = ''list'' then Once (tag_list env organizationId)
                  else Loop annotate (tag_step env organizationId operation))))"
| "prelude Schema env =
     bindA (reqStr env ''operation'' 0) (\<lambda>operation.
       bindA (resolve_organization env org_message) (\<lambda>organizationId.
         returnA (if operation = ''list'' then Once (schema_list env organizationId)
                  else if operation = ''listVersions'' then Once (schema_listVersions env organizationId)
                  else if operation = ''validate'' then Once (schema_validate env organizationId)
                  else Loop annotate (schema_step env organizationId operation))))"
| "prelude Account env =
     bindA (reqStr env ''operation'' 0) (\<lambda>operation.
       returnA (if operation \<in> set account_runOnce then Once (account_once env operation)
                else Loop (\<lambda>i e. e) (account_step env operation)))"
| "prelude LLM env =
     bindA (reqStr env ''operation'' 0) (\<lambda>operation.
       bindA (resolve_organization env org_message) (\<lambda>organizationId.
         returnA (Loop annotate (llm_step env organizationId operation))))"
| "prelude DocRouter env =
     bindA (reqStr env ''operation'' 0) (\<lambda>operation.
       if operation \<noteq> ''upload'' then throwA (unknown_operation operation)
       else
         bindA (reqStr env ''organizationId'' 0) (\<lambda>organizationId.
           bindA (reqStr env ''binaryPropertyName'' 0) (\<lambda>binaryPropertyName.
             returnA (Loop annotate
               (upload_item env organizationId binaryPropertyName (optStr env ''documentName'' 0 [])
                  (optStr env ''tagIds'' 0 []) (optJson env ''metadata'' 0 (JObj [])))))))"
| "prelude KnowledgeBase env =
     bindA (reqStr env ''operation'' 0) (\<lambda>operation.
       bindA (resolve_organization env org_message) (\<lambda>organizationId.
         returnA (if operation \<in> set kb_runOnce then Once (kb_once env organizationId operation)
                  else Loop annotate (kb_step env organizationId operation))))"

text \<open>The operations each \<open>execute\<close> takes out of the item loop and runs once.\<close>

fun runs_once :: "node \<Rightarrow> string \<Rightarrow> bool" where
  "runs_once Document operation = (operation = ''list'')"
| "runs_once Tag operation = (operation = ''list'')"
| "runs_once Schema operation =
     (operation = ''list'' \<or> operation = ''listVersions'' \<or> operation = ''validate'')"
| "runs_once Account operation = (operation \<in> set account_runOnce)"
| "runs_once LLM operation = False"
| "runs_once DocRouter operation = False"
| "runs_once KnowledgeBase operation = (operation \<in> set kb_runOnce)"

text \<open>The nodes that resolve the organization from the token, and the message each uses.\<close>

fun resolves_organization :: "node \<Rightarrow> bool" where
  "resolves_organization Account = False"
| "resolves_organization DocRouter = False"
| "resolves_organization n = True"

fun organization_error :: "node \<Rightarrow> error" where
  "organization_error Document = NodeOperationError org_message_document None"
| "organization_error n = NodeOperationError org_message None"

text \<open>
  The entry an item gets from the outcome of its step, the request log after the steps of
  some items, and the entries of a loop in which every outcome is recorded.
\<close>

definition item_result :: "nat \<Rightarrow> error + json \<Rightarrow> entry" where
  "item_result i r = (case r of Inr response \<Rightarrow> ok_entry response i | Inl e \<Rightarrow> error_entry e i)"

fun log_after :: "(nat \<Rightarrow> json act) \<Rightarrow> nat list \<Rightarrow> request list \<Rightarrow> request list" where
  "log_after step [] h = h"
| "log_after step (i # is) h = log_after step is (snd (step i h))"

fun results_from :: "(nat \<Rightarrow> json act) \<Rightarrow> nat list \<Rightarrow> request list \<Rightarrow> entry list" where
  "results_from step [] h = []"
| "results_from step (i # is) h =
     item_result i (fst (step i h)) # results_from step is (snd (step i h))"

text \<open>The outcome of the step of item \<open>i\<close> when the loop started from the log \<open>h\<close>.\<close>

definition outcome :: "(nat \<Rightarrow> json act) \<Rightarrow> request list \<Rightarrow> nat \<Rightarrow> error + json" where
  "outcome step h i = fst (step i (log_after step [0..<i] h))"

text \<open>\<open>parts.join(c)\<close>, to say what \<open>split\<close> returns.\<close>

fun join :: "char \<Rightarrow> string list \<Rightarrow> string" where
  "join c [] = []"
| "join c [x] = x"
| "join c (x # y # ys) = x @ c # join c (y # ys)"

text \<open>The requests an action adds to the log.\<close>

definition sent :: "'a act \<Rightarrow> request list \<Rightarrow> request list" where
  "sent m h = drop (length h) (snd (m h))"

text \<open>An action that fails and has made no request.\<close>

definition rejects :: "'a act \<Rightarrow> request list \<Rightarrow> bool" where
  "rejects m h = (isl (fst (m h)) \<and> snd (m h) = h)"

text \<open>An action that only ever adds requests satisfying \<open>P\<close> to the log.\<close>

definition appends :: "(request \<Rightarrow> bool) \<Rightarrow> 'a act \<Rightarrow> bool" where
  "appends P m = (\<forall>h. \<exists>rs. snd (m h) = h @ rs \<and> list_all P rs)"

definition org_url :: "request \<Rightarrow> bool" where
  "org_url r = (take 9 (url r) = ''/v0/orgs/'')"

section \<open>Concrete executions\<close>

text \<open>
  Execution contexts on which the nodes are run below. In the base context the remote
  answers the organization lookup with \<open>org1\<close> and every other request with an empty body,
  and the parser accepts the text \<open>{}\<close> only.
\<close>

definition params :: "(string \<times> 'a) list \<Rightarrow> string \<Rightarrow> nat \<Rightarrow> 'a option" where
  "params kvs name i = map_of kvs name"

definition env_base :: env where
  "env_base =
     \<lparr>getInputData = [\<lparr>binary = [(''data'', \<lparr>fileName = Some ''a.pdf''\<rparr>)]\<rparr>,
                      \<lparr>binary = [(''data'', \<lparr>fileName = None\<rparr>)]\<rparr>],
      strParam = (\<lambda>name i. None),
      numParam = (\<lambda>name i. None),
      boolParam = (\<lambda>name i. None),
      jsonParam = (\<lambda>name i. None),
      nodeParameters = [],
      continueOnFail = False,
      credBaseUrl = None,
      credApiToken = Some ''T'',
      remote = (\<lambda>h r. if url r = token_url then Inr (JObj [(''organization_id'', JStr ''org1'')])
                        else Inr JUndefined),
      JSON_parse = (\<lambda>s. if s = ''{}'' then Inr (JObj []) else Inl ''Unexpected token''),
      getBinaryDataBuffer = (\<lambda>i name. Inr ''QUJD''),
      js_String = (\<lambda>v. ''[object Object]'')\<rparr>"

text \<open>Two items, the Schema operation \<open>validate\<close>.\<close>

definition env_validate :: env where
  "env_validate = env_base
     \<lparr>strParam := params [(''operation'', ''validate''), (''schemaRevid'', ''rev1'')],
      jsonParam := params [(''validateData'', JStr ''{}'')]\<rparr>"

text \<open>Two items, the operation \<open>get\<close>.\<close>

definition env_get :: env where
  "env_get = env_base
     \<lparr>strParam := params [(''operation'', ''get''), (''documentId'', ''d1'')]\<rparr>"

text \<open>The lookup answers with an object that has no \<open>organization_id\<close>.\<close>

definition env_no_org :: env where
  "env_no_org = env_base
     \<lparr>strParam := params [(''operation'', ''get''), (''tagId'', ''t1'')],
      remote := (\<lambda>h r. Inr (JObj []))\<rparr>"

text \<open>Two items with an attachment each, uploaded by the DocRouter node to \<open>org9\<close>.\<close>

definition env_docrouter :: env where
  "env_docrouter = env_base
     \<lparr>strParam := params [(''operation'', ''upload''), (''organizationId'', ''org9''),
                          (''binaryPropertyName'', ''data'')]\<rparr>"

text \<open>Three items, a document update each; the metadata of the second is not JSON.\<close>

definition env_bad_metadata :: env where
  "env_bad_metadata = env_base
     \<lparr>getInputData := [\<lparr>binary = []\<rparr>, \<lparr>binary = []\<rparr>, \<lparr>binary = []\<rparr>],
      strParam := params [(''operation'', ''update''), (''documentId'', ''d1''),
                          (''newDocumentName'', ''n'')],
      jsonParam := (\<lambda>name i. if name = ''metadata'' \<and> i = 1 then Some (JStr ''{bad'') else None)\<rparr>"

definition env_continue :: env where
  "env_continue = env_bad_metadata \<lparr>continueOnFail := True\<rparr>"

text \<open>The operation is the host's passthrough name.\<close>

definition env_custom :: env where
  "env_custom = env_base \<lparr>strParam := params [(''operation'', ''__CUSTOM_API_CALL__'')]\<rparr>"

text \<open>Two LLM result updates; the prompt revision of the second is blank.\<close>

definition env_blank_revid :: env where
  "env_blank_revid = env_base
     \<lparr>strParam := (\<lambda>name i. if name = ''promptRevid'' then (if i = 0 then Some ''p'' else Some '' '')
                              else params [(''operation'', ''update''), (''documentId'', ''d1'')] name i),
      jsonParam := params [(''updatedLlmResult'', JStr ''{}'')]\<rparr>"

text \<open>Deletes of the entity \<open>X\<close>.\<close>

definition env_delete :: env where
  "env_delete = env_base
     \<lparr>strParam := params [(''operation'', ''delete''), (''documentId'', ''X''), (''tagId'', ''X''),
                          (''schemaId'', ''X''), (''kbId'', ''X''), (''userId'', ''X''),
                          (''organizationId'', ''X''), (''promptRevid'', ''p'')]\<rparr>"

text \<open>Two knowledge bases created with no tag identifiers.\<close>

definition env_kb_create :: env where
  "env_kb_create = env_base
     \<lparr>strParam := params [(''operation'', ''create''), (''name'', ''kb'')],
      numParam := params [(''reconcileIntervalSeconds'', 3600)]\<rparr>"


text \<open>Two organization updates whose members text is two spaces.\<close>

definition env_blank_members :: env where
  "env_blank_members = env_base
     \<lparr>strParam := params [(''operation'', ''updateOrganization''), (''organizationId'', ''o1''),
                          (''members'', ''  '')]\<rparr>"


text \<open>Properties of plans, used to state what the steps of a node add to the log.\<close>

fun plan_appends :: "(request \<Rightarrow> bool) \<Rightarrow> plan \<Rightarrow> bool" where
  "plan_appends P (Once step) = appends P step"
| "plan_appends P (Loop rt step) = (\<forall>i. appends P (step i))"

section \<open>Laws of actions and of the batch skeleton\<close>

lemma bindA_assoc: "bindA (bindA m f) g = bindA m (\<lambda>x. bindA (f x) g)"
  by (auto simp: bindA_def fun_eq_iff split: prod.splits sum.splits)

lemma bindA_returnA: "bindA (returnA x) f = f x"
  by (simp add: bindA_def returnA_def)

lemma bindA_throwA: "bindA (throwA e) f = throwA e"
  by (simp add: bindA_def throwA_def)

lemma bindA_if: "bindA (if c then m else n) f = (if c then bindA m f else bindA n f)"
  by simp

lemma execute_prelude: "execute node env = bindA (prelude node env) (run_plan env)"
proof (cases node)
  case Document
  then show ?thesis
    by (simp add: execute_Document_def bindA_assoc bindA_returnA if_distrib [of "run_plan env"]
             cong del: if_weak_cong)
next
  case Tag
  then show ?thesis
    by (simp add: execute_Tag_def bindA_assoc bindA_returnA if_distrib [of "run_plan env"]
             cong del: if_weak_cong)
next
  case Schema
  then show ?thesis
    by (simp add: execute_Schema_def bindA_assoc bindA_returnA if_distrib [of "run_plan env"]
             cong del: if_weak_cong)
next
  case Account
  then show ?thesis
    by (simp add: execute_Account_def bindA_assoc bindA_returnA if_distrib [of "run_plan env"]
             cong del: if_weak_cong)
next
  case LLM
  then show ?thesis
    by (simp add: execute_LLM_def bindA_assoc bindA_returnA)
next
  case DocRouter
  then show ?thesis
    by (simp add: execute_DocRouter_def bindA_assoc bindA_returnA bindA_throwA bindA_if Let_def
             cong del: if_weak_cong)
next
  case KnowledgeBase
  then show ?thesis
    by (simp add: execute_KnowledgeBase_def bindA_assoc bindA_returnA if_distrib [of "run_plan env"]
             cong del: if_weak_cong)
qed

lemma for_items_continue:
  "continueOnFail env \<Longrightarrow>
   for_items env rt step is acc h = (Inr (acc @ results_from step is h), log_after step is h)"
proof (induction "is" arbitrary: acc h)
  case Nil
  then show ?case by (simp add: returnA_def)
next
  case (Cons i "is")
  obtain r h' where s: "step i h = (r, h')" by (cases "step i h")
  show ?case
  proof (cases r)
    case (Inl e)
    with s Cons show ?thesis
      by (simp add: bindA_def guarded_def item_result_def)
  next
    case (Inr v)
    with s Cons show ?thesis
      by (simp add: bindA_def guarded_def item_result_def)
  qed
qed

lemma length_results_from: "length (results_from step is h) = length is"
  by (induction "is" arbitrary: h) auto

lemma paired_results_from: "map pairedItem (results_from step is h) = is"
  by (induction "is" arbitrary: h)
     (auto simp: item_result_def ok_entry_def error_entry_def split: sum.splits)

lemma nth_results_from:
  "k < length is \<Longrightarrow>
   results_from step is h ! k = item_result (is ! k) (fst (step (is ! k) (log_after step (take k is) h)))"
proof (induction "is" arbitrary: h k)
  case Nil
  then show ?case by simp
next
  case (Cons i "is")
  then show ?case by (cases k) auto
qed

lemma nth_results_upt:
  "k < n \<Longrightarrow> results_from step [0..<n] h ! k = item_result k (outcome step h k)"
  by (simp add: nth_results_from outcome_def)

text \<open>Whenever the loop returns, its entries are one per visited index, in order.\<close>

lemma for_items_returns:
  "for_items env rt step is acc h = (Inr out, h') \<Longrightarrow>
   out = acc @ results_from step is h \<and> h' = log_after step is h"
proof (induction "is" arbitrary: acc h)
  case Nil
  then show ?case by (simp add: returnA_def)
next
  case (Cons i "is")
  obtain r h1 where s: "step i h = (r, h1)" by (cases "step i h")
  show ?case
  proof (cases r)
    case (Inl e)
    with s Cons.prems have c: "continueOnFail env"
      by (auto simp: bindA_def guarded_def split: if_splits)
    with s Inl Cons.prems have "for_items env rt step is (acc @ [error_entry e i]) h1 = (Inr out, h')"
      by (simp add: bindA_def guarded_def)
    from Cons.IH [OF this] s Inl show ?thesis
      by (simp add: item_result_def)
  next
    case (Inr v)
    with s Cons.prems have "for_items env rt step is (acc @ [ok_entry v i]) h1 = (Inr out, h')"
      by (simp add: bindA_def guarded_def)
    from Cons.IH [OF this] s Inr show ?thesis
      by (simp add: item_result_def)
  qed
qed

text \<open>Without continue-on-fail the loop stops at the first failing step.\<close>

lemma for_items_abort:
  assumes "\<not> continueOnFail env" and "k < length is"
    and "\<forall>j<k. isl (fst (step (is ! j) (log_after step (take j is) h))) = False"
    and "fst (step (is ! k) (log_after step (take k is) h)) = Inl e"
  shows "for_items env rt step is acc h = (Inl (rt (is ! k) e), log_after step (take (Suc k) is) h)"
  using assms
proof (induction "is" arbitrary: acc h k)
  case Nil
  then show ?case by simp
next
  case (Cons i "is")
  obtain r h1 where s: "step i h = (r, h1)" by (cases "step i h")
  show ?case
  proof (cases k)
    case 0
    with Cons.prems s show ?thesis
      by (simp add: bindA_def guarded_def)
  next
    case (Suc k')
    from Cons.prems(3) Suc have "isl (fst (step i h)) = False"
      by (auto dest: spec [of _ 0])
    with s obtain v where r: "r = Inr v" by (cases r) auto
    have a: "\<forall>j<k'. isl (fst (step (is ! j) (log_after step (take j is) h1))) = False"
    proof (intro allI impI)
      fix j assume "j < k'"
      with Cons.prems(3) Suc have "isl (fst (step ((i # is) ! Suc j) (log_after step (take (Suc j) (i # is)) h))) = False"
        by (metis Suc_less_eq)
      with s show "isl (fst (step (is ! j) (log_after step (take j is) h1))) = False" by simp
    qed
    have b: "fst (step (is ! k') (log_after step (take k' is) h1)) = Inl e"
      using Cons.prems(4) Suc s by simp
    have c: "k' < length is" using Cons.prems(2) Suc by simp
    from Cons.IH [OF Cons.prems(1) c a b, of "acc @ [ok_entry v i]"] s r Suc show ?thesis
      by (simp add: bindA_def guarded_def)
  qed
qed

lemmas act_defs = bindA_def returnA_def throwA_def liftE_def httpRequestWithAuthentication_def
  reqStr_def reqJson_def optStr_def optNum_def optBool_def optJson_def optNumU_def
  guarded_def item_loop_def run_once_def resolve_organization_def token_request_def
  org_request_def account_request_def baseUrl_def apiToken_def token_url_def params_def
  ok_entry_def error_entry_def set_if_def template_def Let_def

lemma run_once_paired:
  "run_once env step h = (Inr out, h') \<Longrightarrow> map pairedItem out = [0]"
  by (auto simp: run_once_def guarded_def ok_entry_def error_entry_def split: prod.splits sum.splits if_splits)

lemma item_loop_paired:
  "item_loop env rt step h = (Inr out, h') \<Longrightarrow> map pairedItem out = [0..<length (getInputData env)]"
  unfolding item_loop_def by (drule for_items_returns) (simp add: paired_results_from)

lemma prelude_kind:
  assumes "prelude node env h = (Inr p, h')" and "strParam env ''operation'' 0 = Some operation"
  shows "(\<exists>step. p = Once step) = runs_once node operation"
  using assms
  by (cases node)
     (auto simp: bindA_def returnA_def throwA_def reqStr_def split: prod.splits sum.splits if_splits)

section \<open>What the steps add to the request log\<close>

lemma appends_returnA: "appends P (returnA x)"
  by (simp add: appends_def returnA_def)

lemma appends_throwA: "appends P (throwA e)"
  by (simp add: appends_def throwA_def)

lemma appends_liftE: "appends P (liftE r)"
  by (simp add: appends_def liftE_def)

lemma appends_http: "P r \<Longrightarrow> appends P (httpRequestWithAuthentication env r)"
  by (simp add: appends_def httpRequestWithAuthentication_def)

lemma appends_bindA:
  assumes "appends P m" and "\<And>x. appends P (f x)"
  shows "appends P (bindA m f)"
  unfolding appends_def
proof
  fix h
  obtain r h1 where m: "m h = (r, h1)" by (cases "m h")
  from assms(1) m obtain rs where rs: "h1 = h @ rs" "list_all P rs"
    by (auto simp: appends_def dest: spec [of _ h])
  show "\<exists>rs. snd (bindA m f h) = h @ rs \<and> list_all P rs"
  proof (cases r)
    case (Inl e)
    with m rs show ?thesis by (auto simp: bindA_def)
  next
    case (Inr x)
    from assms(2) [of x] obtain rs' where "snd (f x h1) = h1 @ rs'" "list_all P rs'"
      by (auto simp: appends_def dest: spec [of _ h1])
    with m rs Inr show ?thesis by (auto simp: bindA_def)
  qed
qed

lemma appends_reqStr: "appends P (reqStr env name i)"
  by (simp add: reqStr_def appends_returnA appends_throwA split: option.splits)

lemma appends_reqJson: "appends P (reqJson env name i)"
  by (simp add: reqJson_def appends_returnA appends_throwA split: option.splits)

lemma appends_guarded: "appends P step \<Longrightarrow> appends P (guarded env rt i step acc)"
  unfolding appends_def
proof
  fix h
  assume a: "\<forall>h. \<exists>rs. snd (step h) = h @ rs \<and> list_all P rs"
  then obtain rs where "snd (step h) = h @ rs" "list_all P rs" by blast
  then show "\<exists>rs. snd (guarded env rt i step acc h) = h @ rs \<and> list_all P rs"
    by (cases "step h") (auto simp: guarded_def split: sum.splits)
qed

lemma appends_for_items:
  "(\<And>i. appends P (step i)) \<Longrightarrow> appends P (for_items env rt step is acc)"
  by (induction "is" arbitrary: acc)
     (auto intro: appends_returnA appends_bindA appends_guarded)

lemma appends_default_case: "appends P (default_case hint operation)"
  by (simp add: default_case_def appends_throwA)

lemma appends_if:
  "\<lbrakk>c \<Longrightarrow> appends P a; \<not> c \<Longrightarrow> appends P b\<rbrakk> \<Longrightarrow> appends P (if c then a else b)"
  by simp

lemma appends_case_option:
  "\<lbrakk>x = None \<Longrightarrow> appends P a; \<And>y. x = Some y \<Longrightarrow> appends P (f y)\<rbrakk>
   \<Longrightarrow> appends P (case x of None \<Rightarrow> a | Some y \<Rightarrow> f y)"
  by (cases x) auto

lemmas appends_intros = appends_returnA appends_throwA appends_liftE appends_bindA
  appends_reqStr appends_reqJson appends_http appends_default_case appends_if appends_case_option

lemma org_url_request: "org_url (org_request env m u q b) = (take 9 u = ''/v0/orgs/'')"
  by (simp add: org_url_def org_request_def)

lemma upload_item_appends: "appends org_url (upload_item env org b d t m i)"
  unfolding upload_item_def Let_def
  by (intro appends_intros; simp add: org_url_request)

lemma document_step_appends: "appends org_url (document_step env org operation i)"
  unfolding document_step_def document_upload_def document_get_def document_update_def
    document_delete_def Let_def
  by (intro appends_intros upload_item_appends; simp add: org_url_request)

lemma tag_step_appends: "appends org_url (tag_step env org operation i)"
  unfolding tag_step_def tag_get_def tag_create_def tag_update_def tag_delete_def Let_def
  by (intro appends_intros; simp add: org_url_request)

lemma schema_step_appends: "appends org_url (schema_step env org operation i)"
  unfolding schema_step_def schema_get_def schema_create_def schema_update_def
    schema_delete_def Let_def
  by (intro appends_intros; simp add: org_url_request)

lemma llm_step_appends: "appends org_url (llm_step env org operation i)"
  unfolding llm_step_def llm_run_def llm_get_def llm_update_def llm_delete_def Let_def
  by (intro appends_intros; simp add: org_url_request)

lemma kb_step_appends: "appends org_url (kb_step env org operation i)"
  unfolding kb_step_def kb_get_def kb_create_def kb_update_def kb_delete_def Let_def
  by (intro appends_intros; simp add: org_url_request)

lemma kb_once_appends: "appends org_url (kb_once env org operation)"
  unfolding kb_once_def kb_list_def kb_listDocuments_def kb_listChunks_def kb_search_def
    kb_chat_def kb_reconcile_def kb_reconcileAll_def Let_def
  by (intro appends_intros; simp add: org_url_request)

lemma schema_list_appends: "appends org_url (schema_list env org)"
  unfolding schema_list_def Let_def by (intro appends_intros; simp add: org_url_request)

lemma schema_listVersions_appends: "appends org_url (schema_listVersions env org)"
  unfolding schema_listVersions_def Let_def by (intro appends_intros; simp add: org_url_request)

lemma schema_validate_appends: "appends org_url (schema_validate env org)"
  unfolding schema_validate_def Let_def by (intro appends_intros; simp add: org_url_request)

lemma document_list_appends: "appends org_url (document_list env org)"
  unfolding document_list_def Let_def by (intro appends_intros; simp add: org_url_request)

lemma tag_list_appends: "appends org_url (tag_list env org)"
  unfolding tag_list_def Let_def by (intro appends_intros; simp add: org_url_request)

lemma run_plan_appends: "plan_appends P p \<Longrightarrow> appends P (run_plan env p)"
  by (cases p) (auto simp: run_once_def item_loop_def intro: appends_guarded appends_for_items)


lemmas step_appends = document_step_appends tag_step_appends schema_step_appends llm_step_appends
  kb_step_appends kb_once_appends schema_list_appends schema_listVersions_appends
  schema_validate_appends document_list_appends tag_list_appends upload_item_appends

lemma prelude_plan_appends:
  assumes "prelude node env h = (Inr p, h')" and "node \<noteq> Account"
  shows "plan_appends org_url p"
proof (cases node)
  case Document
  with assms(1) show ?thesis
    by (auto simp: bindA_def returnA_def step_appends split: prod.splits sum.splits if_splits)
next
  case Tag
  with assms(1) show ?thesis
    by (auto simp: bindA_def returnA_def step_appends split: prod.splits sum.splits if_splits)
next
  case Schema
  with assms(1) show ?thesis
    by (auto simp: bindA_def returnA_def step_appends split: prod.splits sum.splits if_splits)
next
  case Account
  with assms(2) show ?thesis by simp
next
  case LLM
  with assms(1) show ?thesis
    by (auto simp: bindA_def returnA_def step_appends split: prod.splits sum.splits if_splits)
next
  case DocRouter
  with assms(1) show ?thesis
    by (auto simp: bindA_def returnA_def throwA_def step_appends split: prod.splits sum.splits if_splits)
next
  case KnowledgeBase
  with assms(1) show ?thesis
    by (auto simp: bindA_def returnA_def step_appends split: prod.splits sum.splits if_splits)
qed

lemma org_url_not_token: "org_url r \<Longrightarrow> url r \<noteq> token_url"
  by (auto simp: org_url_def token_url_def)

lemma list_all_org_url: "list_all org_url rs \<Longrightarrow> list_all (\<lambda>r. url r \<noteq> token_url) rs"
  by (induction rs) (auto simp: org_url_not_token)

text \<open>The log and the outcome of the organization lookup.\<close>

lemma resolve_organization_log:
  "snd (resolve_organization env msg h) = h @ [token_request env]"
  by (auto simp: resolve_organization_def bindA_def httpRequestWithAuthentication_def
        returnA_def throwA_def Let_def split: sum.splits)

lemma resolve_organization_missing:
  assumes "remote env h (token_request env) = Inr response"
    and "\<not> truthy (organization_id response)"
  shows "resolve_organization env msg h = (Inl (NodeOperationError msg None), h @ [token_request env])"
  using assms
  by (simp add: resolve_organization_def bindA_def httpRequestWithAuthentication_def throwA_def
        Let_def)

lemma bind_resolve_log:
  "snd (bindA (resolve_organization env msg) (\<lambda>organizationId. returnA (f organizationId)) h)
     = h @ [token_request env]"
proof -
  obtain r h1 where s: "resolve_organization env msg h = (r, h1)"
    by (cases "resolve_organization env msg h")
  with resolve_organization_log [of env msg h] have "h1 = h @ [token_request env]" by simp
  with s show ?thesis
    by (cases r) (simp_all add: bindA_def returnA_def)
qed

lemma prelude_log:
  assumes "resolves_organization node" and "strParam env ''operation'' 0 = Some operation"
  shows "snd (prelude node env h) = h @ [token_request env]"
  using assms
  by (cases node) (simp_all add: reqStr_def bindA_returnA bind_resolve_log)

lemma prelude_missing:
  assumes "resolves_organization node" and "strParam env ''operation'' 0 = Some operation"
    and "remote env h (token_request env) = Inr response"
    and "\<not> truthy (organization_id response)"
  shows "prelude node env h = (Inl (organization_error node), h @ [token_request env])"
proof -
  have r: "\<And>msg f. bindA (resolve_organization env msg) f h
             = (Inl (NodeOperationError msg None), h @ [token_request env])"
    using resolve_organization_missing [OF assms(3,4)] by (simp add: bindA_def)
  from assms(1,2) show ?thesis
    by (cases node) (simp_all add: reqStr_def bindA_returnA r)
qed

lemma prelude_rethrow:
  assumes "prelude node env h0 = (Inr (Loop rethrow step), h)"
  shows "rethrow = (if node = Account then (\<lambda>i e. e) else annotate)"
  using assms
  by (cases node)
     (auto simp: bindA_def returnA_def throwA_def split: prod.splits sum.splits if_splits)

lemma annotate_message: "message (annotate i e) = message e"
  by (cases e) auto

lemma annotate_plain: "\<not> has_context e \<Longrightarrow> annotate i e = e"
  by (cases e) auto

lemma annotate_index: "has_context e \<Longrightarrow> itemIndex_of (annotate i e) = Some i"
  by (cases e) auto

section \<open>Requests, parameters and strings\<close>

lemma http_ok:
  "remote env h r = Inr v \<Longrightarrow> httpRequestWithAuthentication env r h = (Inr v, h @ [r])"
  by (simp add: httpRequestWithAuthentication_def)

lemma bind_http_const:
  assumes "\<not> isl (remote env h r)"
  shows "bindA (httpRequestWithAuthentication env r) (\<lambda>_. returnA v) h = (Inr v, h @ [r])"
proof -
  from assms obtain w where "remote env h r = Inr w" by (cases "remote env h r") auto
  then show ?thesis by (simp add: bindA_def http_ok returnA_def)
qed

lemma reqStr_Some: "strParam env name i = Some v \<Longrightarrow> bindA (reqStr env name i) f = f v"
  by (simp add: reqStr_def bindA_returnA)

lemma httpMethod_request [simp]:
  "httpMethod (org_request env m u q b) = m" "httpMethod (account_request env m u q b) = m"
  by (simp_all add: org_request_def account_request_def)

lemma keys_length_truthy: "\<exists>n. keys_length (if truthy v then v else JObj []) = Inr n"
  by (cases v) auto

lemma documentName_nonempty: "documentName d bd \<noteq> []"
  by (simp add: documentName_def split: option.splits)

lemma upload_item_sent:
  assumes "map_of (binary (getInputData env ! i)) b = Some bd"
  shows "sent (upload_item env org b d t m i) h = []
       \<or> (\<exists>content md n.
            sent (upload_item env org b d t m i) h
              = [org_request env ''POST'' (''/v0/orgs/'' @ org @ ''/documents'') []
                   (Some (upload_body (documentName d bd) content
                            (if t \<noteq> [] then split_ids t else []) md n))])"
proof (cases "getBinaryDataBuffer env i b")
  case (Inl e)
  with assms show ?thesis
    by (simp add: upload_item_def sent_def bindA_def liftE_def)
next
  case content: (Inr content)
  show ?thesis
  proof (cases "parse_if_string env m ''{}''")
    case (Inl e)
    with assms content show ?thesis
      by (simp add: upload_item_def sent_def bindA_def liftE_def Let_def)
  next
    case md: (Inr md)
    from keys_length_truthy [of md] obtain n where
      n: "keys_length (if truthy md then md else JObj []) = Inr n" ..
    with assms content md have
      "sent (upload_item env org b d t m i) h
         = [org_request env ''POST'' (''/v0/orgs/'' @ org @ ''/documents'') []
              (Some (upload_body (documentName d bd) content
                       (if t \<noteq> [] then split_ids t else []) md n))]"
      by (simp add: upload_item_def sent_def bindA_def liftE_def Let_def
            httpRequestWithAuthentication_def)
    then show ?thesis by blast
  qed
qed

lemma upload_item_sends:
  assumes "map_of (binary (getInputData env ! i)) b = Some bd"
    and "getBinaryDataBuffer env i b = Inr content" and "parse_if_string env m ''{}'' = Inr md"
  shows "length (sent (upload_item env org b d t m i) h) = 1"
proof -
  from keys_length_truthy [of md] obtain n where
    n: "keys_length (if truthy md then md else JObj []) = Inr n" ..
  with assms show ?thesis
    by (simp add: upload_item_def sent_def bindA_def liftE_def Let_def
          httpRequestWithAuthentication_def)
qed

lemma split_nonempty: "split c s \<noteq> []"
  by (induction s) (auto split: list.splits)

lemma split_no_sep: "c \<notin> set s \<Longrightarrow> split c s = [s]"
  by (induction s) auto

lemma join_split: "join c (split c s) = s"
proof (induction s)
  case Nil
  then show ?case by simp
next
  case (Cons x xs)
  obtain w ws where sp: "split c xs = w # ws"
    using split_nonempty [of c xs] by (cases "split c xs") auto
  show ?case
  proof (cases "x = c")
    case True
    with Cons sp show ?thesis by simp
  next
    case False
    with Cons sp show ?thesis by (cases ws) auto
  qed
qed

lemma split_pieces_no_sep: "t \<in> set (split c s) \<Longrightarrow> c \<notin> set t"
proof (induction s arbitrary: t)
  case Nil
  then show ?case by simp
next
  case (Cons x xs)
  obtain w ws where sp: "split c xs = w # ws"
    using split_nonempty [of c xs] by (cases "split c xs") auto
  with Cons show ?case by (auto split: if_splits)
qed

lemma set_trim: "set (trim s) \<subseteq> set s"
proof -
  have "set (trim s) \<subseteq> set (dropWhile is_space s)"
    unfolding trim_def using set_dropWhileD by fastforce
  also have "\<dots> \<subseteq> set s" using set_dropWhileD by fastforce
  finally show ?thesis .
qed

lemma last_dropWhile: "dropWhile P xs \<noteq> [] \<Longrightarrow> last (dropWhile P xs) = last xs"
  by (induction xs) (auto split: if_splits)

lemma trim_hd: "trim s \<noteq> [] \<Longrightarrow> \<not> is_space (hd (trim s))"
proof -
  assume n: "trim s \<noteq> []"
  let ?d = "dropWhile is_space s"
  let ?e = "dropWhile is_space (rev ?d)"
  from n have e: "?e \<noteq> []" unfolding trim_def by simp
  have d: "?d \<noteq> []"
  proof
    assume "?d = []"
    then have "?e = []" by (simp only: rev.simps dropWhile.simps)
    with e show False by contradiction
  qed
  have "hd (rev ?e) = last ?e" using e by (simp only: hd_rev)
  also have "\<dots> = last (rev ?d)" using e by (rule last_dropWhile)
  also have "\<dots> = hd ?d" using d by (simp only: last_rev)
  finally have "hd (trim s) = hd ?d" by (simp only: trim_def)
  moreover have "\<not> is_space (hd ?d)" using d by (rule hd_dropWhile)
  ultimately show ?thesis by simp
qed

lemma trim_last: "trim s \<noteq> [] \<Longrightarrow> \<not> is_space (last (trim s))"
proof -
  assume n: "trim s \<noteq> []"
  let ?e = "dropWhile is_space (rev (dropWhile is_space s))"
  from n have e: "?e \<noteq> []" by (simp add: trim_def)
  then have "\<not> is_space (hd ?e)" by (simp add: hd_dropWhile)
  with e show ?thesis by (simp add: trim_def last_rev)
qed

lemma trim_blank: "trim s = [] \<Longrightarrow> \<forall>x\<in>set s. is_space x"
proof -
  assume t: "trim s = []"
  let ?d = "dropWhile is_space s"
  from t have "dropWhile is_space (rev ?d) = []" by (simp add: trim_def)
  then have a: "\<forall>x\<in>set ?d. is_space x" by (simp add: dropWhile_eq_Nil_conv)
  have "?d = []"
  proof (rule ccontr)
    assume "?d \<noteq> []"
    then have "\<not> is_space (hd ?d)" "hd ?d \<in> set ?d" by (simp_all add: hd_dropWhile)
    with a show False by blast
  qed
  then show ?thesis by (simp add: dropWhile_eq_Nil_conv)
qed

lemma comma_not_space: "\<not> is_space (CHR '','')"
  by (simp add: is_space_def)

lemma split_ids_blank: "trim s = [] \<Longrightarrow> split_ids s = []"
proof -
  assume t: "trim s = []"
  with trim_blank have "CHR '','' \<notin> set s" using comma_not_space by blast
  then have "split (CHR '','') s = [s]" by (rule split_no_sep)
  with t show ?thesis by (simp add: split_ids_def)
qed

lemma split_ids_Nil: "split_ids [] = []"
  by (simp add: split_ids_def trim_def)

lemma split_ids_tokens:
  assumes "t \<in> set (split_ids s)"
  shows "t \<noteq> [] \<and> CHR '','' \<notin> set t \<and> \<not> is_space (hd t) \<and> \<not> is_space (last t)"
proof -
  from assms obtain p where p: "p \<in> set (split (CHR '','') s)" and t: "t = trim p" "trim p \<noteq> []"
    by (auto simp: split_ids_def)
  from split_pieces_no_sep [OF p] set_trim [of p] have "CHR '','' \<notin> set (trim p)" by blast
  with t trim_hd [of p] trim_last [of p] show ?thesis by simp
qed

lemma split_ids_example: "split_ids ''a, b ,c'' = [''a'', ''b'', ''c'']"
  by (simp add: split_ids_def trim_def is_space_def)

lemma map_of_set_if:
  "map_of (set_if c k v obj) k' = (if c \<and> k = k' then Some v else map_of obj k')"
  by (simp add: set_if_def AList.update_conv')

section \<open>The bodies of updates\<close>

lemma set_if_keys: "fst ` set (set_if c k v obj) \<subseteq> insert k (fst ` set obj)"
  by (cases c) (simp_all add: set_if_def AList.dom_update subset_insertI)

lemma map_of_set_from_node_param:
  "map_of (set_from_node_param env k field f obj) k'
     = (case node_param env k of
          None \<Rightarrow> map_of obj k'
        | Some raw \<Rightarrow> (if field = k' then Some (f raw) else map_of obj k'))"
  by (simp add: set_from_node_param_def AList.update_conv' split: option.splits)

lemma set_from_node_param_keys:
  "fst ` set (set_from_node_param env k field f obj) \<subseteq> insert field (fst ` set obj)"
  by (cases "node_param env k") (simp_all add: set_from_node_param_def AList.dom_update subset_insertI)









lemma updateOrganization_members_result:
  assumes "updateOrganization_members env m b0 = Inr b"
  shows "(\<forall>k. k \<noteq> ''members'' \<longrightarrow> map_of b k = map_of b0 k)
       \<and> (\<forall>v. map_of b ''members'' = Some v \<and> map_of b0 ''members'' = None \<longrightarrow>
             trim m \<noteq> [] \<and> JSON_parse env (trim m) = Inr v)
       \<and> fst ` set b \<subseteq> insert ''members'' (fst ` set b0)"
proof -
  from assms consider "b = b0"
    | v where "trim m \<noteq> []" "JSON_parse env (trim m) = Inr v" "b = AList.update ''members'' v b0"
    by (auto simp: updateOrganization_members_def split: if_splits sum.splits)
  then show ?thesis
  proof cases
    case 1
    then show ?thesis by (auto simp: subset_insertI)
  next
    case 2
    then show ?thesis by (auto simp: AList.update_conv' AList.dom_update)
  qed
qed

lemma updateOrganization_sent:
  "sent (account_step env ''updateOrganization'' i) h = []
   \<or> (\<exists>u b. sent (account_step env ''updateOrganization'' i) h
               = [account_request env ''PUT'' u [] (Some (JObj b))]
        \<and> updateOrganization_body env i = Inr b)"
  by (auto simp: account_step_def account_updateOrganization_def sent_def bindA_def reqStr_def
        returnA_def throwA_def liftE_def httpRequestWithAuthentication_def
        split: option.splits sum.splits)

lemma updateOrganization_body:
  "list_all (\<lambda>r. \<exists>b. body r = Some (JObj b)
        \<and> map_of b ''name''
            = (if optStr env ''orgNameUpdate'' i [] \<noteq> []
               then Some (JStr (trim (optStr env ''orgNameUpdate'' i []))) else None)
        \<and> map_of b ''type''
            = (case node_param env ''orgTypeUpdate'' of
                 None \<Rightarrow> None
               | Some raw \<Rightarrow> Some (if optStr env ''orgTypeUpdate'' i [] \<noteq> []
                                    then JStr (optStr env ''orgTypeUpdate'' i []) else raw))
        \<and> (\<forall>v. map_of b ''members'' = Some v \<longrightarrow>
              trim (optStr env ''members'' i []) \<noteq> []
              \<and> JSON_parse env (trim (optStr env ''members'' i [])) = Inr v)
        \<and> fst ` set b \<subseteq> {''name'', ''type'', ''members''})
     (sent (account_step env ''updateOrganization'' i) h)"
proof -
  let ?b1 = "set_if (optStr env ''orgNameUpdate'' i [] \<noteq> []) ''name''
               (JStr (trim (optStr env ''orgNameUpdate'' i []))) []"
  let ?b2 = "set_from_node_param env ''orgTypeUpdate'' ''type''
               (\<lambda>raw. if optStr env ''orgTypeUpdate'' i [] \<noteq> []
                      then JStr (optStr env ''orgTypeUpdate'' i []) else raw) ?b1"
  have k1: "fst ` set ?b1 \<subseteq> {''name''}"
    using set_if_keys [of _ "''name''" _ "[]"] by simp
  have "fst ` set ?b2 \<subseteq> insert ''type'' (fst ` set ?b1)" by (rule set_from_node_param_keys)
  with k1 have k2: "fst ` set ?b2 \<subseteq> {''name'', ''type''}" by blast
  have m2: "map_of ?b2 ''members'' = None"
    by (simp add: map_of_set_from_node_param map_of_set_if split: option.splits)
  from updateOrganization_sent [of env i h] show ?thesis
  proof
    assume "sent (account_step env ''updateOrganization'' i) h = []"
    then show ?thesis by simp
  next
    assume "\<exists>u b. sent (account_step env ''updateOrganization'' i) h
               = [account_request env ''PUT'' u [] (Some (JObj b))]
        \<and> updateOrganization_body env i = Inr b"
    then obtain u b where s: "sent (account_step env ''updateOrganization'' i) h
               = [account_request env ''PUT'' u [] (Some (JObj b))]"
      and b: "updateOrganization_members env (optStr env ''members'' i []) ?b2 = Inr b"
      by (auto simp: updateOrganization_body_def Let_def)
    note r = updateOrganization_members_result [OF b]
    from r have a1: "map_of b ''name'' = map_of ?b2 ''name''"
      and a2: "map_of b ''type'' = map_of ?b2 ''type''" by simp_all
    from r m2 have a3: "\<forall>v. map_of b ''members'' = Some v \<longrightarrow>
              trim (optStr env ''members'' i []) \<noteq> []
              \<and> JSON_parse env (trim (optStr env ''members'' i [])) = Inr v" by blast
    from r k2 have a4: "fst ` set b \<subseteq> {''name'', ''type'', ''members''}" by blast
    from a1 a2 a3 a4 show ?thesis
      unfolding s
      by (simp add: account_request_def map_of_set_from_node_param map_of_set_if split: option.splits)
  qed
qed


section \<open>Malformed JSON text\<close>

lemma parse_fails:
  "JSON_parse env s = Inl m \<Longrightarrow> s \<noteq> [] \<Longrightarrow> parse_if_string env (JStr s) d = Inl (PlainError m)"
  by (simp add: parse_if_string_def)

lemmas run_defs = bindA_def liftE_def reqStr_def reqJson_def returnA_def throwA_def

lemma upload_item_rejects:
  assumes "JSON_parse env s = Inl m" and "s \<noteq> []"
  shows "rejects (upload_item env org b d t (JStr s) i) h"
  using parse_fails [OF assms]
  by (auto simp: rejects_def upload_item_def run_defs Let_def split: option.splits sum.splits)

lemma upload_item_syntax_error:
  assumes "JSON_parse env s = Inl m" and "s \<noteq> []"
    and "map_of (binary (getInputData env ! i)) b = Some bd"
    and "getBinaryDataBuffer env i b = Inr content"
  shows "fst (upload_item env org b d t (JStr s) i h) = Inl (PlainError m)"
  using parse_fails [OF assms(1,2)] assms(3,4)
  by (simp add: upload_item_def run_defs Let_def)

lemma document_rejects:
  assumes "JSON_parse env s = Inl m" and "s \<noteq> []" and "jsonParam env ''metadata'' i = Some (JStr s)"
  shows "rejects (document_step env org ''upload'' i) h"
    and "rejects (document_step env org ''update'' i) h"
    and "strParam env ''documentId'' i = Some documentId \<Longrightarrow>
           fst (document_step env org ''update'' i h) = Inl (PlainError m)"
proof -
  from assms(3) have o: "optJson env ''metadata'' i (JObj []) = JStr s"
    by (simp add: optJson_def)
  show "rejects (document_step env org ''upload'' i) h"
    using upload_item_rejects [OF assms(1,2)] o
    by (auto simp: rejects_def document_step_def document_upload_def run_defs split: option.splits)
  have u: "document_update_metadata env (JStr s) b0 = Inl (PlainError m)" for b0
    using parse_fails [OF assms(1,2)] assms(2) by (simp add: document_update_metadata_def)
  show "rejects (document_step env org ''update'' i) h"
    using o u
    by (auto simp: rejects_def document_step_def document_update_def run_defs Let_def
          split: option.splits)
  show "strParam env ''documentId'' i = Some documentId \<Longrightarrow>
           fst (document_step env org ''update'' i h) = Inl (PlainError m)"
    using o u
    by (simp add: document_step_def document_update_def run_defs Let_def)
qed

lemma schema_rejects:
  assumes "JSON_parse env s = Inl m" and "s \<noteq> []"
  shows "jsonParam env ''jsonSchema'' i = Some (JStr s) \<Longrightarrow> rejects (schema_step env org ''create'' i) h"
    and "jsonParam env ''jsonSchema'' i = Some (JStr s) \<Longrightarrow> rejects (schema_step env org ''update'' i) h"
    and "jsonParam env ''validateData'' 0 = Some (JStr s) \<Longrightarrow> rejects (schema_validate env org) h"
    and "jsonParam env ''jsonSchema'' i = Some (JStr s) \<Longrightarrow> strParam env ''name'' i = Some name \<Longrightarrow>
           fst (schema_step env org ''create'' i h) = Inl (PlainError m)"
  using parse_fails [OF assms]
  by (auto simp: rejects_def schema_step_def schema_create_def schema_update_def
        schema_validate_def run_defs split: option.splits)

lemma llm_rejects:
  assumes "JSON_parse env s = Inl m" and "s \<noteq> []"
    and "jsonParam env ''updatedLlmResult'' i = Some (JStr s)"
  shows "rejects (llm_step env org ''update'' i) h"
    and "strParam env ''documentId'' i = Some documentId \<Longrightarrow>
           fst (llm_step env org ''update'' i h) = Inl (PlainError m)"
  using parse_fails [OF assms(1,2)] assms(3)
  by (auto simp: rejects_def llm_step_def llm_update_def run_defs Let_def split: option.splits)

lemma members_rejects:
  assumes "JSON_parse env s = Inl m" and "s \<noteq> []" and "trim (optStr env ''members'' i []) = s"
  shows "rejects (account_step env ''updateOrganization'' i) h"
    and "strParam env ''organizationId'' i = Some organizationId \<Longrightarrow>
           fst (account_step env ''updateOrganization'' i h)
             = Inl (NodeOperationError ''Members must be a valid JSON array'' None)"
proof -
  from assms have n: "optStr env ''members'' i [] \<noteq> []"
    by (auto simp: trim_def)
  have b: "updateOrganization_body env i = Inl (NodeOperationError ''Members must be a valid JSON array'' None)"
    using assms n by (simp add: updateOrganization_body_def updateOrganization_members_def Let_def)
  show "rejects (account_step env ''updateOrganization'' i) h"
    using b
    by (auto simp: rejects_def account_step_def account_updateOrganization_def run_defs
          split: option.splits)
  show "strParam env ''organizationId'' i = Some organizationId \<Longrightarrow>
           fst (account_step env ''updateOrganization'' i h)
             = Inl (NodeOperationError ''Members must be a valid JSON array'' None)"
    using b
    by (simp add: account_step_def account_updateOrganization_def run_defs)
qed

lemma kb_rejects:
  assumes "JSON_parse env s = Inl m" and "s \<noteq> []"
  shows "jsonParam env ''metadataFilter'' 0 = Some (JStr s) \<Longrightarrow> rejects (kb_once env org ''search'') h"
    and "jsonParam env ''messages'' 0 = Some (JStr s) \<Longrightarrow> rejects (kb_once env org ''chat'') h"
    and "jsonParam env ''chatMetadataFilter'' 0 = Some (JStr s) \<Longrightarrow> rejects (kb_once env org ''chat'') h"
  using parse_fails [OF assms]
  by (auto simp: rejects_def kb_once_def kb_search_def kb_chat_def optJson_def run_defs Let_def
        split: option.splits sum.splits)

section \<open>What the operations send\<close>


lemma liftE_Inr: "bindA (liftE (Inr v)) f = f v"
  by (simp add: bindA_def liftE_def)

lemma sent_http: "sent (httpRequestWithAuthentication env r) h = [r]"
  by (simp add: sent_def httpRequestWithAuthentication_def)


lemma trim_nonempty_iff: "trim p \<noteq> [] \<longleftrightarrow> (\<exists>c\<in>set p. \<not> is_space c)"
proof
  assume "trim p \<noteq> []"
  then have "set (trim p) \<noteq> {}" by simp
  moreover from trim_hd [of p] \<open>trim p \<noteq> []\<close> have "\<not> is_space (hd (trim p))" by simp
  moreover have "hd (trim p) \<in> set (trim p)" using \<open>trim p \<noteq> []\<close> by simp
  ultimately show "\<exists>c\<in>set p. \<not> is_space c" using set_trim [of p] by blast
next
  assume "\<exists>c\<in>set p. \<not> is_space c"
  then show "trim p \<noteq> []" using trim_blank [of p] by blast
qed

lemma trim_decomp:
  "\<exists>a b. p = a @ trim p @ b \<and> list_all is_space a \<and> list_all is_space b"
proof -
  let ?a = "takeWhile is_space p"
  let ?d = "dropWhile is_space p"
  let ?b = "rev (takeWhile is_space (rev ?d))"
  have "rev ?d = takeWhile is_space (rev ?d) @ dropWhile is_space (rev ?d)"
    by (simp only: takeWhile_dropWhile_id)
  then have "rev (rev ?d) = rev (takeWhile is_space (rev ?d) @ dropWhile is_space (rev ?d))"
    by (simp only:)
  then have d: "?d = trim p @ ?b"
    by (simp only: rev_rev_ident rev_append trim_def)
  have "p = ?a @ ?d" by (simp only: takeWhile_dropWhile_id)
  with d have "p = ?a @ trim p @ ?b" by (simp only:)
  moreover have "list_all is_space ?a"
    by (simp add: list_all_iff) (meson set_takeWhileD)
  moreover have "list_all is_space ?b"
    by (simp add: list_all_iff) (meson set_takeWhileD)
  ultimately show ?thesis by blast
qed

lemma split_ids_alt:
  "split_ids s = map trim (filter (\<lambda>p. \<exists>c\<in>set p. \<not> is_space c) (split (CHR '','') s))"
  unfolding split_ids_def
  by (induction "split (CHR '','') s") (simp_all add: filter_map o_def trim_nonempty_iff)

lemma upload_item_sends_exact:
  assumes "map_of (binary (getInputData env ! i)) b = Some bd"
    and "getBinaryDataBuffer env i b = Inr content" and "parse_if_string env m ''{}'' = Inr md"
  shows "\<exists>n. sent (upload_item env org b d t m i) h
           = [org_request env ''POST'' (''/v0/orgs/'' @ org @ ''/documents'') []
                (Some (upload_body (documentName d bd) content (split_ids t) md n))]"
proof -
  from keys_length_truthy [of md] obtain n where
    n: "keys_length (if truthy md then md else JObj []) = Inr n" ..
  have u: "(if t \<noteq> [] then split_ids t else []) = split_ids t"
    by (simp add: split_ids_Nil)
  from assms n have "sent (upload_item env org b d t m i) h
           = [org_request env ''POST'' (''/v0/orgs/'' @ org @ ''/documents'') []
                (Some (upload_body (documentName d bd) content (split_ids t) md n))]"
    unfolding upload_item_def Let_def u
    by (simp add: liftE_Inr sent_http)
  then show ?thesis ..
qed

lemma upload_tag_ids:
  assumes "map_of (binary (getInputData env ! i)) b = Some bd"
    and "getBinaryDataBuffer env i b = Inr content" and "parse_if_string env m ''{}'' = Inr md"
  shows "\<exists>doc. sent (upload_item env org b d t m i) h
               = [org_request env ''POST'' (''/v0/orgs/'' @ org @ ''/documents'') []
                    (Some (JObj [(''documents'', JArr [JObj doc])]))]
           \<and> map_of (wire_fields doc) ''tag_ids''
               = (if split_ids t = [] then None else Some (JArr (map JStr (split_ids t))))"
proof -
  from upload_item_sends_exact [OF assms, of org d t h] obtain n where
    "sent (upload_item env org b d t m i) h
           = [org_request env ''POST'' (''/v0/orgs/'' @ org @ ''/documents'') []
                (Some (upload_body (documentName d bd) content (split_ids t) md n))]" ..
  then have "sent (upload_item env org b d t m i) h
               = [org_request env ''POST'' (''/v0/orgs/'' @ org @ ''/documents'') []
                    (Some (JObj [(''documents'', JArr [JObj
                       (upload_document (documentName d bd) content (split_ids t) md n)])]))]
           \<and> map_of (wire_fields (upload_document (documentName d bd) content (split_ids t) md n))
                ''tag_ids''
               = (if split_ids t = [] then None else Some (JArr (map JStr (split_ids t))))"
    by (simp add: upload_body_def wire_fields_def upload_document_def)
  then show ?thesis by blast
qed

lemma document_upload_is_upload_item:
  "strParam env ''binaryPropertyName'' i = Some b \<Longrightarrow>
   document_step env org ''upload'' i
     = upload_item env org b (optStr env ''documentName'' i []) (optStr env ''tagIds'' i [])
         (optJson env ''metadata'' i (JObj [])) i"
  by (simp add: document_step_def document_upload_def reqStr_Some)

lemma docrouter_prelude:
  "strParam env ''operation'' 0 = Some ''upload'' \<Longrightarrow> strParam env ''organizationId'' 0 = Some org \<Longrightarrow>
   strParam env ''binaryPropertyName'' 0 = Some b \<Longrightarrow>
   prelude DocRouter env h
     = (Inr (Loop annotate
          (upload_item env org b (optStr env ''documentName'' 0 []) (optStr env ''tagIds'' 0 [])
             (optJson env ''metadata'' 0 (JObj [])))), h)"
  by (simp add: reqStr_Some returnA_def)

lemma kb_create_sends:
  "strParam env ''name'' i = Some nam \<Longrightarrow>
   sent (kb_step env org ''create'' i) h
     = [org_request env ''POST'' (''/v0/orgs/'' @ org @ ''/knowledge-bases'') []
          (Some (JObj (kb_create_body env nam i)))]"
  by (simp add: kb_step_def kb_create_def reqStr_Some sent_http)

lemma kb_create_tag_ids:
  "map_of (kb_create_body env nam i) ''tag_ids''
     = Some (JArr (map JStr (split_ids (optStr env ''tagIds'' i []))))"
  unfolding kb_create_body_def set_reconcile_interval_def Let_def
  by (simp add: map_of_set_if kb_tag_ids_def split_ids_blank split: option.splits)











section \<open>The claims\<close>

text \<open>
  C1 (as amended). Every invocation that returns pairs its entries as follows: an operation
  that the node runs once (\<open>list\<close> in the Document, Tag, Schema and Knowledge Base nodes;
  \<open>listVersions\<close> and \<open>validate\<close> in the Schema node; \<open>listDocuments\<close>, \<open>listChunks\<close>,
  \<open>search\<close>, \<open>chat\<close>, \<open>reconcile\<close> and \<open>reconcileAll\<close> in the Knowledge Base node;
  \<open>listUsers\<close>, \<open>listOrganizations\<close>, \<open>getUser\<close> and \<open>getOrganization\<close> in the Account
  node) yields exactly one entry, paired with item 0; every other operation yields exactly
  one entry per input item, paired with the item's index, in input order.
\<close>

theorem execute_pairing:
  assumes "strParam env ''operation'' 0 = Some operation"
    and "fst (execute node env []) = Inr out"
  shows "map pairedItem out =
           (if runs_once node operation then [0] else [0..<length (getInputData env)])"
proof -
  obtain h where e: "execute node env [] = (Inr out, h)"
    using assms(2) by (cases "execute node env []") auto
  then obtain p h1 where p: "prelude node env [] = (Inr p, h1)" and r: "run_plan env p h1 = (Inr out, h)"
    by (auto simp: execute_prelude bindA_def split: prod.splits sum.splits)
  from prelude_kind [OF p assms(1)] have k: "(\<exists>step. p = Once step) = runs_once node operation" .
  show ?thesis
  proof (cases p)
    case (Once step)
    with r k show ?thesis by (auto dest: run_once_paired)
  next
    case (Loop rt step)
    with r k show ?thesis by (auto dest: item_loop_paired)
  qed
qed

text \<open>The theorem at a \<open>get\<close> of the Document node over two items.\<close>

theorem execute_pairing_witness:
  "strParam env_get ''operation'' 0 = Some ''get'' \<and>
   fst (execute Document env_get []) = Inr [ok_entry JUndefined 0, ok_entry JUndefined 1] \<and>
   map pairedItem [ok_entry JUndefined 0, ok_entry JUndefined 1] = [0..<length (getInputData env_get)]"
proof -
  have a: "strParam env_get ''operation'' 0 = Some ''get''"
    by (simp add: env_get_def env_base_def params_def)
  have b: "fst (execute Document env_get []) = Inr [ok_entry JUndefined 0, ok_entry JUndefined 1]"
    by (simp add: env_get_def env_base_def execute_Document_def document_step_def document_get_def
          upt_rec act_defs)
  from execute_pairing [OF a b] a b show ?thesis by simp
qed

text \<open>
  C1 as stated fails: \<open>validate\<close> of the Schema node over two items yields one entry,
  paired with item 0, not one entry per item.
\<close>

theorem validate_runs_once:
  "length (getInputData env_validate) = 2 \<and>
   strParam env_validate ''operation'' 0 = Some ''validate'' \<and>
   map_sum id (map pairedItem) (fst (execute Schema env_validate [])) = Inr [0]"
  by (simp add: env_validate_def env_base_def execute_Schema_def schema_validate_def
        parse_if_string_def act_defs)




text \<open>
  C3 (as amended). In the Document, Tag, Schema, LLM and Knowledge Base nodes the first
  request of an invocation is the organization lookup and no later request goes to the lookup
  address, so the lookup is made exactly once and before any item; when the lookup answers
  without an organization identifier, the invocation fails with the node's configuration
  error and the lookup is the only request made. The DocRouter node takes the organization
  from a parameter and never makes the lookup.
\<close>

theorem organization_lookup_once:
  assumes "strParam env ''operation'' 0 = Some operation"
  shows "(resolves_organization node \<longrightarrow>
            (\<exists>rest. snd (execute node env []) = token_request env # rest
                    \<and> list_all (\<lambda>r. url r \<noteq> token_url) rest)
          \<and> (\<forall>response. remote env [] (token_request env) = Inr response
                \<and> \<not> truthy (organization_id response)
                \<longrightarrow> execute node env [] = (Inl (organization_error node), [token_request env])))
       \<and> list_all (\<lambda>r. url r \<noteq> token_url) (snd (execute DocRouter env []))"
proof (intro conjI impI allI)
  assume n: "resolves_organization node"
  then have na: "node \<noteq> Account" by auto
  obtain r h1 where p: "prelude node env [] = (r, h1)" by (cases "prelude node env []")
  with prelude_log [OF n assms, of "[]"] have h1: "h1 = [token_request env]" by simp
  show "\<exists>rest. snd (execute node env []) = token_request env # rest
          \<and> list_all (\<lambda>r. url r \<noteq> token_url) rest"
  proof (cases r)
    case (Inl e)
    with p h1 show ?thesis by (simp add: execute_prelude bindA_def)
  next
    case (Inr pl)
    with p have "plan_appends org_url pl" using prelude_plan_appends [OF _ na] by simp
    then have "appends org_url (run_plan env pl)" by (rule run_plan_appends)
    then obtain rs where "snd (run_plan env pl h1) = h1 @ rs" "list_all org_url rs"
      by (auto simp: appends_def)
    with p Inr h1 show ?thesis
      by (auto simp: execute_prelude bindA_def list_all_org_url)
  qed
next
  fix response
  assume n: "resolves_organization node"
    and "remote env [] (token_request env) = Inr response
          \<and> \<not> truthy (organization_id response)"
  then show "execute node env [] = (Inl (organization_error node), [token_request env])"
    using prelude_missing [OF n assms, of "[]" response]
    by (simp add: execute_prelude bindA_def)
next
  obtain r h1 where p: "prelude DocRouter env [] = (r, h1)" by (cases "prelude DocRouter env []")
  have h1: "h1 = []" using p
    by (auto simp: bindA_def reqStr_def returnA_def throwA_def split: option.splits if_splits)
  show "list_all (\<lambda>r. url r \<noteq> token_url) (snd (execute DocRouter env []))"
  proof (cases r)
    case (Inl e)
    with p h1 show ?thesis by (simp add: execute_prelude bindA_def)
  next
    case (Inr pl)
    with p have "plan_appends org_url pl" using prelude_plan_appends [of DocRouter] by simp
    then have "appends org_url (run_plan env pl)" by (rule run_plan_appends)
    then obtain rs where "snd (run_plan env pl h1) = h1 @ rs" "list_all org_url rs"
      by (auto simp: appends_def)
    with p Inr h1 show ?thesis
      by (auto simp: execute_prelude bindA_def list_all_org_url)
  qed
qed

text \<open>The theorem at a Tag \<open>get\<close> whose lookup answers with an empty object.\<close>

theorem organization_lookup_once_witness:
  "strParam env_no_org ''operation'' 0 = Some ''get'' \<and>
   resolves_organization Tag \<and>
   remote env_no_org [] (token_request env_no_org) = Inr (JObj []) \<and>
   organization_id (JObj []) = JUndefined \<and>
   (\<exists>rest. snd (execute Tag env_no_org []) = token_request env_no_org # rest
           \<and> list_all (\<lambda>r. url r \<noteq> token_url) rest) \<and>
   execute Tag env_no_org [] = (Inl (organization_error Tag), [token_request env_no_org]) \<and>
   list_all (\<lambda>r. url r \<noteq> token_url) (snd (execute DocRouter env_no_org []))"
proof -
  have a: "strParam env_no_org ''operation'' 0 = Some ''get''"
    by (simp add: env_no_org_def env_base_def params_def)
  have b: "remote env_no_org [] (token_request env_no_org) = Inr (JObj [])"
    by (simp add: env_no_org_def env_base_def)
  from organization_lookup_once [OF a, of Tag] a b show ?thesis by simp
qed

text \<open>
  C3 as stated fails for the uploads of the DocRouter node, which are operations on the
  documents of an organization: two items are uploaded and no lookup is made.
\<close>

theorem docrouter_makes_no_lookup:
  "strParam env_docrouter ''operation'' 0 = Some ''upload'' \<and>
   map url (snd (execute DocRouter env_docrouter []))
     = [''/v0/orgs/org9/documents'', ''/v0/orgs/org9/documents''] \<and>
   token_url = ''/v0/account/token/organization''"
  by (simp add: env_docrouter_def env_base_def execute_DocRouter_def upload_item_def
        parse_if_string_def upt_rec act_defs)

text \<open>
  C4 (as amended). A JSON text that is not empty and that the parser rejects makes the
  step fail with no request made for the item, in every operation that takes such a text:
  the metadata of an upload or of a document update, the JSON schema of a schema creation or
  update, the data to validate, the updated LLM result, the metadata filters and the messages
  of the knowledge base search and chat, and the members of an organization update when the
  trimmed text is not empty. The error is the syntax error of the parser (for members, the
  node's own \<open>Members must be a valid JSON array\<close>) once the checks before the parse have
  passed.
\<close>

theorem malformed_json_rejected:
  assumes "JSON_parse env s = Inl m" and "s \<noteq> []"
  shows "rejects (upload_item env org b d t (JStr s) i) h
       \<and> (map_of (binary (getInputData env ! i)) b = Some bd
            \<and> getBinaryDataBuffer env i b = Inr content \<longrightarrow>
            fst (upload_item env org b d t (JStr s) i h) = Inl (PlainError m))
       \<and> (jsonParam env ''metadata'' i = Some (JStr s) \<longrightarrow>
            rejects (document_step env org ''upload'' i) h
            \<and> rejects (document_step env org ''update'' i) h
            \<and> (strParam env ''documentId'' i = Some documentId \<longrightarrow>
                 fst (document_step env org ''update'' i h) = Inl (PlainError m)))
       \<and> (jsonParam env ''jsonSchema'' i = Some (JStr s) \<longrightarrow>
            rejects (schema_step env org ''create'' i) h
            \<and> rejects (schema_step env org ''update'' i) h
            \<and> (strParam env ''name'' i = Some name \<longrightarrow>
                 fst (schema_step env org ''create'' i h) = Inl (PlainError m)))
       \<and> (jsonParam env ''validateData'' 0 = Some (JStr s) \<longrightarrow>
            rejects (schema_validate env org) h)
       \<and> (jsonParam env ''updatedLlmResult'' i = Some (JStr s) \<longrightarrow>
            rejects (llm_step env org ''update'' i) h
            \<and> (strParam env ''documentId'' i = Some documentId \<longrightarrow>
                 fst (llm_step env org ''update'' i h) = Inl (PlainError m)))
       \<and> (trim (optStr env ''members'' i []) = s \<longrightarrow>
            rejects (account_step env ''updateOrganization'' i) h
            \<and> (strParam env ''organizationId'' i = Some organizationId \<longrightarrow>
                 fst (account_step env ''updateOrganization'' i h)
                   = Inl (NodeOperationError ''Members must be a valid JSON array'' None)))
       \<and> (jsonParam env ''metadataFilter'' 0 = Some (JStr s) \<longrightarrow>
            rejects (kb_once env org ''search'') h)
       \<and> (jsonParam env ''messages'' 0 = Some (JStr s)
            \<or> jsonParam env ''chatMetadataFilter'' 0 = Some (JStr s) \<longrightarrow>
            rejects (kb_once env org ''chat'') h)"
proof -
  have c1: "rejects (upload_item env org b d t (JStr s) i) h"
    by (rule upload_item_rejects [OF assms])
  have c2: "map_of (binary (getInputData env ! i)) b = Some bd
            \<and> getBinaryDataBuffer env i b = Inr content \<longrightarrow>
            fst (upload_item env org b d t (JStr s) i h) = Inl (PlainError m)"
    using upload_item_syntax_error [OF assms] by blast
  have c3: "jsonParam env ''metadata'' i = Some (JStr s) \<longrightarrow>
            rejects (document_step env org ''upload'' i) h
            \<and> rejects (document_step env org ''update'' i) h
            \<and> (strParam env ''documentId'' i = Some documentId \<longrightarrow>
                 fst (document_step env org ''update'' i h) = Inl (PlainError m))"
    using document_rejects [OF assms] by blast
  have c4: "jsonParam env ''jsonSchema'' i = Some (JStr s) \<longrightarrow>
            rejects (schema_step env org ''create'' i) h
            \<and> rejects (schema_step env org ''update'' i) h
            \<and> (strParam env ''name'' i = Some name \<longrightarrow>
                 fst (schema_step env org ''create'' i h) = Inl (PlainError m))"
    using schema_rejects(1,2,4) [OF assms] by blast
  have c5: "jsonParam env ''validateData'' 0 = Some (JStr s) \<longrightarrow>
            rejects (schema_validate env org) h"
    using schema_rejects(3) [OF assms] by blast
  have c6: "jsonParam env ''updatedLlmResult'' i = Some (JStr s) \<longrightarrow>
            rejects (llm_step env org ''update'' i) h
            \<and> (strParam env ''documentId'' i = Some documentId \<longrightarrow>
                 fst (llm_step env org ''update'' i h) = Inl (PlainError m))"
    using llm_rejects [OF assms] by blast
  have c7: "trim (optStr env ''members'' i []) = s \<longrightarrow>
            rejects (account_step env ''updateOrganization'' i) h
            \<and> (strParam env ''organizationId'' i = Some organizationId \<longrightarrow>
                 fst (account_step env ''updateOrganization'' i h)
                   = Inl (NodeOperationError ''Members must be a valid JSON array'' None))"
    using members_rejects [OF assms] by blast
  have c8: "jsonParam env ''metadataFilter'' 0 = Some (JStr s) \<longrightarrow>
            rejects (kb_once env org ''search'') h"
    using kb_rejects(1) [OF assms] by blast
  have c9: "jsonParam env ''messages'' 0 = Some (JStr s)
            \<or> jsonParam env ''chatMetadataFilter'' 0 = Some (JStr s) \<longrightarrow>
            rejects (kb_once env org ''chat'') h"
    using kb_rejects(2,3) [OF assms] by blast
  show ?thesis
    by (intro conjI c1 c2 c3 c4 c5 c6 c7 c8 c9)
qed

text \<open>The theorem at the second of three document updates, whose metadata is \<open>{bad\<close>.\<close>

theorem malformed_json_rejected_witness:
  "JSON_parse env_bad_metadata ''{bad'' = Inl ''Unexpected token'' \<and>
   jsonParam env_bad_metadata ''metadata'' 1 = Some (JStr ''{bad'') \<and>
   strParam env_bad_metadata ''documentId'' 1 = Some ''d1'' \<and>
   rejects (document_step env_bad_metadata ''org1'' ''update'' 1) [token_request env_bad_metadata] \<and>
   fst (document_step env_bad_metadata ''org1'' ''update'' 1 [token_request env_bad_metadata])
     = Inl (PlainError ''Unexpected token'')"
proof -
  have a: "JSON_parse env_bad_metadata ''{bad'' = Inl ''Unexpected token''"
    by (simp add: env_bad_metadata_def env_base_def)
  have n: "''{bad'' \<noteq> []" by simp
  have b: "jsonParam env_bad_metadata ''metadata'' 1 = Some (JStr ''{bad'')"
    by (simp add: env_bad_metadata_def)
  have c: "strParam env_bad_metadata ''documentId'' 1 = Some ''d1''"
    by (simp add: env_bad_metadata_def params_def)
  note T = malformed_json_rejected [OF a n, where i = 1 and org = "''org1''"
      and h = "[token_request env_bad_metadata]" and documentId = "''d1''"]
  from T [THEN conjunct2, THEN conjunct2, THEN conjunct1] a b c show ?thesis by simp
qed

text \<open>
  C4 as stated fails for the members of an organization update: the text of two spaces is
  not JSON, and both updates are sent and succeed.
\<close>

theorem blank_members_sent:
  "strParam env_blank_members ''members'' 0 = Some ''  '' \<and>
   JSON_parse env_blank_members ''  '' = Inl ''Unexpected token'' \<and>
   map httpMethod (snd (execute Account env_blank_members [])) = [''PUT'', ''PUT''] \<and>
   map_sum id (map error_of) (fst (execute Account env_blank_members [])) = Inr [None, None]"
  by (simp add: env_blank_members_def env_base_def execute_Account_def account_runOnce_def
        account_step_def account_updateOrganization_def updateOrganization_body_def
        updateOrganization_members_def set_from_node_param_def node_param_def
        trim_def is_space_def upt_rec act_defs)

text \<open>
  C5. With continue-on-fail, once the invocation has reached the item loop it returns one
  entry per input item, in order; the entry of an item whose step failed carries the message
  of the error in its \<open>error\<close> field, the entry of any other item carries its response, and
  every step is run, each on the log left by the items before it.
\<close>

theorem continue_on_fail_keeps_batch:
  assumes "continueOnFail env" and "prelude node env [] = (Inr (Loop rethrow step), h)"
  shows "\<exists>out h'. execute node env [] = (Inr out, h')
           \<and> length out = length (getInputData env)
           \<and> (\<forall>i < length (getInputData env).
                 pairedItem (out ! i) = i
                 \<and> (case outcome step h i of
                      Inl e \<Rightarrow> json_of (out ! i) = JObj [(''error'', JStr (message e))]
                               \<and> error_of (out ! i) = Some (as_NodeOperationError e)
                    | Inr response \<Rightarrow> json_of (out ! i) = nullish response (JObj [])
                               \<and> error_of (out ! i) = None))"
proof -
  let ?n = "length (getInputData env)"
  let ?out = "results_from step [0..<?n] h"
  have e: "execute node env [] = (Inr ?out, log_after step [0..<?n] h)"
    using assms by (simp add: execute_prelude bindA_def item_loop_def for_items_continue)
  have "\<forall>i < ?n. pairedItem (?out ! i) = i
          \<and> (case outcome step h i of
                Inl e \<Rightarrow> json_of (?out ! i) = JObj [(''error'', JStr (message e))]
                         \<and> error_of (?out ! i) = Some (as_NodeOperationError e)
              | Inr response \<Rightarrow> json_of (?out ! i) = nullish response (JObj [])
                         \<and> error_of (?out ! i) = None)"
    by (auto simp: nth_results_upt item_result_def ok_entry_def error_entry_def split: sum.splits)
  with e show ?thesis by (simp add: length_results_from)
qed

text \<open>The theorem at three document updates of which the second has malformed metadata.\<close>

theorem continue_on_fail_keeps_batch_witness:
  "continueOnFail env_continue \<and>
   prelude Document env_continue []
     = (Inr (Loop annotate (document_step env_continue ''org1'' ''update'')),
        [token_request env_continue]) \<and>
   (\<exists>out h'. execute Document env_continue [] = (Inr out, h')
      \<and> length out = 3
      \<and> map pairedItem [out ! 0, out ! 1, out ! 2] = [0, 1, 2]
      \<and> map json_of [out ! 0, out ! 1, out ! 2]
          = [JObj [(''success'', JBool True)], JObj [(''error'', JStr ''Unexpected token'')],
             JObj [(''success'', JBool True)]])"
proof -
  let ?step = "document_step env_continue ''org1'' ''update''"
  let ?h = "[token_request env_continue]"
  have a: "continueOnFail env_continue"
    by (simp add: env_continue_def)
  have b: "prelude Document env_continue [] = (Inr (Loop annotate ?step), ?h)"
    by (simp add: env_continue_def env_bad_metadata_def env_base_def act_defs)
  have n: "length (getInputData env_continue) = 3"
    by (simp add: env_continue_def env_bad_metadata_def)
  have o0: "outcome ?step ?h 0 = Inr (JObj [(''success'', JBool True)])"
    by (simp add: outcome_def env_continue_def env_bad_metadata_def env_base_def
          document_step_def document_update_def document_update_metadata_def
          parse_if_string_def act_defs)
  have o1: "outcome ?step ?h 1 = Inl (PlainError ''Unexpected token'')"
    by (simp add: outcome_def env_continue_def env_bad_metadata_def env_base_def
          document_step_def document_update_def document_update_metadata_def
          parse_if_string_def act_defs)
  have o2: "outcome ?step ?h 2 = Inr (JObj [(''success'', JBool True)])"
    by (simp add: outcome_def env_continue_def env_bad_metadata_def env_base_def
          document_step_def document_update_def document_update_metadata_def
          parse_if_string_def upt_rec act_defs)
  from continue_on_fail_keeps_batch [OF a b] obtain out h' where
    e: "execute Document env_continue [] = (Inr out, h')" and l: "length out = 3" and
    i: "\<forall>i<3. pairedItem (out ! i) = i
          \<and> (case outcome ?step ?h i of
                Inl e \<Rightarrow> json_of (out ! i) = JObj [(''error'', JStr (message e))]
                         \<and> error_of (out ! i) = Some (as_NodeOperationError e)
              | Inr response \<Rightarrow> json_of (out ! i) = nullish response (JObj [])
                         \<and> error_of (out ! i) = None)"
    unfolding n by blast
  from i have "pairedItem (out ! 0) = 0" "pairedItem (out ! 1) = 1" "pairedItem (out ! 2) = 2"
    by simp_all
  moreover from i [rule_format, of 0] o0 have "json_of (out ! 0) = JObj [(''success'', JBool True)]"
    by simp
  moreover from i [rule_format, of 1] o1 have "json_of (out ! 1) = JObj [(''error'', JStr ''Unexpected token'')]"
    by simp
  moreover from i [rule_format, of 2] o2 have "json_of (out ! 2) = JObj [(''success'', JBool True)]"
    by simp
  ultimately show ?thesis using a b e l by simp
qed

text \<open>
  C6 at the input where the code departs from it: for the host's passthrough name the
  Document, Tag and DocRouter nodes raise the plain unknown-operation error, where the
  Schema node (like the Account, LLM and Knowledge Base nodes) raises the error that points
  to the HTTP Request node.
\<close>

theorem custom_call_without_hint:
  "strParam env_custom ''operation'' 0 = Some custom_api_call \<and>
   fst (execute Document env_custom [])
     = Inl (NodeOperationError ''Unknown operation: __CUSTOM_API_CALL__'' (Some 0)) \<and>
   fst (execute Tag env_custom [])
     = Inl (NodeOperationError ''Unknown operation: __CUSTOM_API_CALL__'' (Some 0)) \<and>
   fst (execute DocRouter env_custom [])
     = Inl (NodeOperationError ''Unknown operation: __CUSTOM_API_CALL__'' None) \<and>
   fst (execute Schema env_custom []) = Inl (NodeOperationError schema_hint (Some 0))"
  by (simp add: env_custom_def env_base_def execute_Document_def execute_Tag_def
        execute_DocRouter_def execute_Schema_def document_step_def tag_step_def schema_step_def
        default_case_def unknown_operation_def custom_api_call_def upt_rec act_defs)

text \<open>
  C7 (as amended). Without continue-on-fail, the first step that fails ends the invocation:
  the steps of the later items are never run, and the error is thrown again with its message;
  an error without a context, such as the syntax error of the JSON parser, is thrown again
  unchanged, and in every node but the Account node an error with a context is given the
  index of the failing item.
\<close>

theorem first_error_aborts:
  assumes "\<not> continueOnFail env" and "prelude node env [] = (Inr (Loop rethrow step), h)"
    and "k < length (getInputData env)"
    and "\<forall>j<k. \<not> isl (outcome step h j)"
    and "outcome step h k = Inl e"
  shows "\<exists>e'. execute node env [] = (Inl e', log_after step [0..<Suc k] h)
           \<and> message e' = message e
           \<and> (\<not> has_context e \<longrightarrow> e' = e)
           \<and> (has_context e \<and> node \<noteq> Account \<longrightarrow> itemIndex_of e' = Some k)"
proof -
  let ?is = "[0..<length (getInputData env)]"
  have k: "k < length ?is" using assms(3) by simp
  have a: "\<forall>j<k. isl (fst (step (?is ! j) (log_after step (take j ?is) h))) = False"
    using assms(3,4) by (auto simp: outcome_def)
  have b: "fst (step (?is ! k) (log_after step (take k ?is) h)) = Inl e"
    using assms(3,5) by (simp add: outcome_def)
  have t: "take (Suc k) ?is = [0..<Suc k]"
    using assms(3) by (simp del: upt_Suc)
  from for_items_abort [OF assms(1) k a b, of rethrow "[]"] t assms(3)
  have "item_loop env rethrow step h = (Inl (rethrow k e), log_after step [0..<Suc k] h)"
    by (simp add: item_loop_def del: upt_Suc)
  with assms(2) have e: "execute node env [] = (Inl (rethrow k e), log_after step [0..<Suc k] h)"
    by (simp add: execute_prelude bindA_def)
  from prelude_rethrow [OF assms(2)]
  have "message (rethrow k e) = message e" "\<not> has_context e \<longrightarrow> rethrow k e = e"
    "has_context e \<and> node \<noteq> Account \<longrightarrow> itemIndex_of (rethrow k e) = Some k"
    by (auto simp: annotate_message annotate_plain annotate_index)
  with e show ?thesis by blast
qed

text \<open>The theorem at two LLM result updates of which the second has a blank prompt revision.\<close>

theorem first_error_aborts_witness:
  "\<not> continueOnFail env_blank_revid \<and>
   prelude LLM env_blank_revid []
     = (Inr (Loop annotate (llm_step env_blank_revid ''org1'' ''update'')),
        [token_request env_blank_revid]) \<and>
   (1::nat) < length (getInputData env_blank_revid) \<and>
   outcome (llm_step env_blank_revid ''org1'' ''update'') [token_request env_blank_revid] 0
     = Inr JUndefined \<and>
   outcome (llm_step env_blank_revid ''org1'' ''update'') [token_request env_blank_revid] 1
     = Inl (NodeOperationError ''Prompt Revision ID is required for Update.'' (Some 1)) \<and>
   (\<exists>e'. fst (execute LLM env_blank_revid []) = Inl e'
      \<and> length (snd (execute LLM env_blank_revid [])) = 2
      \<and> message e' = ''Prompt Revision ID is required for Update.''
      \<and> itemIndex_of e' = Some 1)"
proof -
  let ?step = "llm_step env_blank_revid ''org1'' ''update''"
  let ?h = "[token_request env_blank_revid]"
  let ?e = "NodeOperationError ''Prompt Revision ID is required for Update.'' (Some 1)"
  have a: "\<not> continueOnFail env_blank_revid"
    by (simp add: env_blank_revid_def env_base_def)
  have b: "prelude LLM env_blank_revid [] = (Inr (Loop annotate ?step), ?h)"
    by (simp add: env_blank_revid_def env_base_def act_defs)
  have n: "(1::nat) < length (getInputData env_blank_revid)"
    by (simp add: env_blank_revid_def env_base_def)
  have o0: "outcome ?step ?h 0 = Inr JUndefined"
    by (simp add: outcome_def env_blank_revid_def env_base_def llm_step_def llm_update_def
          parse_if_string_def trim_def is_space_def act_defs)
  have l1: "log_after ?step [0..<Suc 1] ?h
              = [token_request env_blank_revid,
                 org_request env_blank_revid ''PUT'' ''/v0/orgs/org1/llm/result/d1''
                   [(''prompt_revid'', JStr ''p'')]
                   (Some (JObj [(''updated_llm_result'', JObj []), (''is_verified'', JBool False)]))]"
    by (simp add: env_blank_revid_def env_base_def llm_step_def llm_update_def
          parse_if_string_def trim_def is_space_def upt_rec act_defs)
  have o1: "outcome ?step ?h 1 = Inl ?e"
    by (simp add: outcome_def env_blank_revid_def env_base_def llm_step_def llm_update_def
          parse_if_string_def trim_def is_space_def act_defs)
  have c: "\<forall>j<1. \<not> isl (outcome ?step ?h j)"
    using o0 by simp
  from first_error_aborts [OF a b n c o1] l1 a b n o0 o1 show ?thesis
    by auto
qed

text \<open>
  C7 as stated fails: the second of three document updates has malformed metadata, and the
  syntax error is thrown again without the index of the item.
\<close>

theorem syntax_error_not_annotated:
  "\<not> continueOnFail env_bad_metadata \<and>
   jsonParam env_bad_metadata ''metadata'' 1 = Some (JStr ''{bad'') \<and>
   fst (execute Document env_bad_metadata []) = Inl (PlainError ''Unexpected token'') \<and>
   itemIndex_of (PlainError ''Unexpected token'') = None"
  by (simp add: env_bad_metadata_def env_base_def execute_Document_def document_step_def
        document_update_def document_update_metadata_def parse_if_string_def upt_rec act_defs)

text \<open>
  C8 (as amended). A comma-separated tag-identifier text is cut at its commas, each piece
  is stripped of the white space at its ends, and the pieces that are not blank are kept in
  order (\<open>a, b ,c\<close> becomes \<open>a\<close>, \<open>b\<close>, \<open>c\<close>). A document upload, of the Document node and
  of the DocRouter node alike, sends one request whose document carries that list as
  \<open>tag_ids\<close> when it has an element and no \<open>tag_ids\<close> field on the wire when it has none.
  The creation of a knowledge base sends one request that always carries the list, as \<open>[]\<close>
  when it has no element.
\<close>

theorem tag_ids_normalised:
  "split_ids ''a, b ,c'' = [''a'', ''b'', ''c'']
   \<and> join (CHR '','') (split (CHR '','') s) = s
   \<and> (\<forall>p\<in>set (split (CHR '','') s). CHR '','' \<notin> set p)
   \<and> (\<exists>a b. p = a @ trim p @ b \<and> list_all is_space a \<and> list_all is_space b)
   \<and> split_ids s = map trim (filter (\<lambda>p. \<exists>c\<in>set p. \<not> is_space c) (split (CHR '','') s))
   \<and> (\<forall>t\<in>set (split_ids s).
         t \<noteq> [] \<and> CHR '','' \<notin> set t \<and> \<not> is_space (hd t) \<and> \<not> is_space (last t))
   \<and> (map_of (binary (getInputData env ! i)) bpn = Some bd
        \<and> getBinaryDataBuffer env i bpn = Inr content \<and> parse_if_string env m ''{}'' = Inr md \<longrightarrow>
        (\<exists>doc. sent (upload_item env org bpn d s m i) h
                 = [org_request env ''POST'' (''/v0/orgs/'' @ org @ ''/documents'') []
                      (Some (JObj [(''documents'', JArr [JObj doc])]))]
             \<and> map_of (wire_fields doc) ''tag_ids''
                 = (if split_ids s = [] then None else Some (JArr (map JStr (split_ids s))))))
   \<and> (strParam env ''binaryPropertyName'' i = Some bpn \<longrightarrow>
        document_step env org ''upload'' i
          = upload_item env org bpn (optStr env ''documentName'' i []) (optStr env ''tagIds'' i [])
              (optJson env ''metadata'' i (JObj [])) i)
   \<and> (strParam env ''operation'' 0 = Some ''upload'' \<and> strParam env ''organizationId'' 0 = Some org
        \<and> strParam env ''binaryPropertyName'' 0 = Some bpn \<longrightarrow>
        prelude DocRouter env h
          = (Inr (Loop annotate
               (upload_item env org bpn (optStr env ''documentName'' 0 []) (optStr env ''tagIds'' 0 [])
                  (optJson env ''metadata'' 0 (JObj [])))), h))
   \<and> (strParam env ''name'' i = Some nam \<longrightarrow>
        sent (kb_step env org ''create'' i) h
          = [org_request env ''POST'' (''/v0/orgs/'' @ org @ ''/knowledge-bases'') []
               (Some (JObj (kb_create_body env nam i)))])
   \<and> map_of (kb_create_body env nam i) ''tag_ids''
       = Some (JArr (map JStr (split_ids (optStr env ''tagIds'' i []))))"
proof -
  have c3: "\<forall>p\<in>set (split (CHR '','') s). CHR '','' \<notin> set p"
    using split_pieces_no_sep by blast
  have c6: "\<forall>t\<in>set (split_ids s).
         t \<noteq> [] \<and> CHR '','' \<notin> set t \<and> \<not> is_space (hd t) \<and> \<not> is_space (last t)"
    using split_ids_tokens by blast
  have c7: "map_of (binary (getInputData env ! i)) bpn = Some bd
        \<and> getBinaryDataBuffer env i bpn = Inr content \<and> parse_if_string env m ''{}'' = Inr md \<longrightarrow>
        (\<exists>doc. sent (upload_item env org bpn d s m i) h
                 = [org_request env ''POST'' (''/v0/orgs/'' @ org @ ''/documents'') []
                      (Some (JObj [(''documents'', JArr [JObj doc])]))]
             \<and> map_of (wire_fields doc) ''tag_ids''
                 = (if split_ids s = [] then None else Some (JArr (map JStr (split_ids s)))))"
    using upload_tag_ids by blast
  have c8: "strParam env ''binaryPropertyName'' i = Some bpn \<longrightarrow>
        document_step env org ''upload'' i
          = upload_item env org bpn (optStr env ''documentName'' i []) (optStr env ''tagIds'' i [])
              (optJson env ''metadata'' i (JObj [])) i"
    using document_upload_is_upload_item by blast
  have c9: "strParam env ''operation'' 0 = Some ''upload'' \<and> strParam env ''organizationId'' 0 = Some org
        \<and> strParam env ''binaryPropertyName'' 0 = Some bpn \<longrightarrow>
        prelude DocRouter env h
          = (Inr (Loop annotate
               (upload_item env org bpn (optStr env ''documentName'' 0 []) (optStr env ''tagIds'' 0 [])
                  (optJson env ''metadata'' 0 (JObj [])))), h)"
    using docrouter_prelude by blast
  have c10: "strParam env ''name'' i = Some nam \<longrightarrow>
        sent (kb_step env org ''create'' i) h
          = [org_request env ''POST'' (''/v0/orgs/'' @ org @ ''/knowledge-bases'') []
               (Some (JObj (kb_create_body env nam i)))]"
    using kb_create_sends by blast
  show ?thesis
    by (intro conjI split_ids_example join_split c3 trim_decomp split_ids_alt c6 c7 c8 c9 c10
          kb_create_tag_ids)
qed

text \<open>
  The theorem at an upload by the DocRouter node with the tag identifiers \<open>a, b ,c\<close>, and
  at the creation of a knowledge base with none.
\<close>

theorem tag_ids_normalised_witness:
  "map_of (binary (getInputData env_docrouter ! 0)) ''data'' = Some \<lparr>fileName = Some ''a.pdf''\<rparr> \<and>
   getBinaryDataBuffer env_docrouter 0 ''data'' = Inr ''QUJD'' \<and>
   parse_if_string env_docrouter (JObj []) ''{}'' = Inr (JObj []) \<and>
   (\<exists>doc. sent (upload_item env_docrouter ''org9'' ''data'' [] ''a, b ,c'' (JObj []) 0) []
            = [org_request env_docrouter ''POST'' ''/v0/orgs/org9/documents'' []
                 (Some (JObj [(''documents'', JArr [JObj doc])]))]
        \<and> map_of (wire_fields doc) ''tag_ids'' = Some (JArr [JStr ''a'', JStr ''b'', JStr ''c''])) \<and>
   strParam env_kb_create ''name'' 0 = Some ''kb'' \<and>
   sent (kb_step env_kb_create ''org1'' ''create'' 0) []
     = [org_request env_kb_create ''POST'' ''/v0/orgs/org1/knowledge-bases'' []
          (Some (JObj (kb_create_body env_kb_create ''kb'' 0)))] \<and>
   map_of (kb_create_body env_kb_create ''kb'' 0) ''tag_ids'' = Some (JArr []) \<and>
   ''b'' \<in> set (split_ids ''a, b ,c'') \<and>
   CHR '','' \<notin> set ''b'' \<and> \<not> is_space (hd ''b'') \<and> \<not> is_space (last ''b'')"
proof -
  have e: "split_ids ''a, b ,c'' = [''a'', ''b'', ''c'']"
    by (simp add: split_ids_def trim_def is_space_def)
  have a: "map_of (binary (getInputData env_docrouter ! 0)) ''data'' = Some \<lparr>fileName = Some ''a.pdf''\<rparr>"
    by (simp add: env_docrouter_def env_base_def)
  have b: "getBinaryDataBuffer env_docrouter 0 ''data'' = Inr ''QUJD''"
    by (simp add: env_docrouter_def env_base_def)
  have p: "parse_if_string env_docrouter (JObj []) ''{}'' = Inr (JObj [])"
    by (simp add: parse_if_string_def)
  note T = tag_ids_normalised [where s = "''a, b ,c''" and env = env_docrouter and i = 0
      and bpn = "''data''" and bd = "\<lparr>fileName = Some ''a.pdf''\<rparr>" and content = "''QUJD''"
      and m = "JObj []" and md = "JObj []" and org = "''org9''" and d = "[]" and h = "[]"]
  from T [THEN conjunct2, THEN conjunct2, THEN conjunct2, THEN conjunct2, THEN conjunct2, THEN conjunct2, THEN conjunct1] a b p
  have u: "\<exists>doc. sent (upload_item env_docrouter ''org9'' ''data'' [] ''a, b ,c'' (JObj []) 0) []
            = [org_request env_docrouter ''POST'' ''/v0/orgs/org9/documents'' []
                 (Some (JObj [(''documents'', JArr [JObj doc])]))]
        \<and> map_of (wire_fields doc) ''tag_ids'' = Some (JArr [JStr ''a'', JStr ''b'', JStr ''c''])"
    by (simp add: e)
  have m: "''b'' \<in> set (split_ids ''a, b ,c'')"
    by (simp add: e)
  from T [THEN conjunct2, THEN conjunct2, THEN conjunct2, THEN conjunct2, THEN conjunct2, THEN conjunct1] m
  have tok: "CHR '','' \<notin> set ''b'' \<and> \<not> is_space (hd ''b'') \<and> \<not> is_space (last ''b'')"
    by blast
  have n: "strParam env_kb_create ''name'' 0 = Some ''kb''"
    by (simp add: env_kb_create_def env_base_def params_def)
  have o: "split_ids (optStr env_kb_create ''tagIds'' 0 []) = []"
    by (simp add: optStr_def env_kb_create_def env_base_def params_def split_ids_Nil)
  note K = tag_ids_normalised [where env = env_kb_create and i = 0 and org = "''org1''"
      and nam = "''kb''" and h = "[]"]
  from K [THEN conjunct2, THEN conjunct2, THEN conjunct2, THEN conjunct2, THEN conjunct2, THEN conjunct2, THEN conjunct2, THEN conjunct2, THEN conjunct2, THEN conjunct1] n
  have c: "sent (kb_step env_kb_create ''org1'' ''create'' 0) []
     = [org_request env_kb_create ''POST'' ''/v0/orgs/org1/knowledge-bases'' []
          (Some (JObj (kb_create_body env_kb_create ''kb'' 0)))]"
    by simp
  from K [THEN conjunct2, THEN conjunct2, THEN conjunct2, THEN conjunct2, THEN conjunct2, THEN conjunct2, THEN conjunct2, THEN conjunct2, THEN conjunct2, THEN conjunct2] o
  have t: "map_of (kb_create_body env_kb_create ''kb'' 0) ''tag_ids'' = Some (JArr [])"
    by simp
  from a b p u n c t m tok show ?thesis by blast
qed

text \<open>
  C8 as stated fails for the creation of a knowledge base: with no tag identifiers given,
  both requests carry \<open>tag_ids\<close> as an empty list.
\<close>

theorem kb_create_sends_empty_tag_ids:
  "optStr env_kb_create ''tagIds'' 0 [] = [] \<and>
   map (\<lambda>r. case body r of Some (JObj b) \<Rightarrow> map_of b ''tag_ids'' | _ \<Rightarrow> None)
     (snd (execute KnowledgeBase env_kb_create []))
     = [None, Some (JArr []), Some (JArr [])]"
  by (simp add: env_kb_create_def env_base_def execute_KnowledgeBase_def kb_runOnce_def
        kb_step_def kb_create_def kb_create_body_def kb_tag_ids_def set_reconcile_interval_def
        trim_def upt_rec act_defs)

text \<open>
  C9. A delete reads the identifier, sends one \<open>DELETE\<close> request to the address of that
  identifier, and, when the remote accepts the request, whatever it answers, returns the
  confirmation made by the node: \<open>success: true\<close> and the identifier of the request, under
  \<open>documentId\<close>, \<open>tagId\<close>, \<open>schemaId\<close> or \<open>kbId\<close>, under \<open>user_id\<close> or \<open>organization_id\<close>
  (trimmed, as in the address) in the Account node, and with the prompt revision beside the
  document identifier in the LLM node. The entry made from it carries that object, which is
  not empty.
\<close>

theorem delete_confirmation:
  "(strParam env ''documentId'' i = Some documentId
      \<and> \<not> isl (remote env h (org_request env ''DELETE''
                   (''/v0/orgs/'' @ org @ ''/documents/'' @ documentId) [] None)) \<longrightarrow>
      document_step env org ''delete'' i h
        = (Inr (JObj [(''success'', JBool True), (''documentId'', JStr documentId)]),
           h @ [org_request env ''DELETE'' (''/v0/orgs/'' @ org @ ''/documents/'' @ documentId) [] None]))
   \<and> (strParam env ''tagId'' i = Some tagId
      \<and> \<not> isl (remote env h (org_request env ''DELETE''
                   (''/v0/orgs/'' @ org @ ''/tags/'' @ tagId) [] None)) \<longrightarrow>
      tag_step env org ''delete'' i h
        = (Inr (JObj [(''success'', JBool True), (''tagId'', JStr tagId)]),
           h @ [org_request env ''DELETE'' (''/v0/orgs/'' @ org @ ''/tags/'' @ tagId) [] None]))
   \<and> (strParam env ''schemaId'' i = Some schemaId
      \<and> \<not> isl (remote env h (org_request env ''DELETE''
                   (''/v0/orgs/'' @ org @ ''/schemas/'' @ schemaId) [] None)) \<longrightarrow>
      schema_step env org ''delete'' i h
        = (Inr (JObj [(''success'', JBool True), (''schemaId'', JStr schemaId)]),
           h @ [org_request env ''DELETE'' (''/v0/orgs/'' @ org @ ''/schemas/'' @ schemaId) [] None]))
   \<and> (strParam env ''kbId'' i = Some kbId
      \<and> \<not> isl (remote env h (org_request env ''DELETE''
                   (''/v0/orgs/'' @ org @ ''/knowledge-bases/'' @ kbId) [] None)) \<longrightarrow>
      kb_step env org ''delete'' i h
        = (Inr (JObj [(''success'', JBool True), (''kbId'', JStr kbId)]),
           h @ [org_request env ''DELETE'' (''/v0/orgs/'' @ org @ ''/knowledge-bases/'' @ kbId) [] None]))
   \<and> (strParam env ''documentId'' i = Some documentId
      \<and> trim (optStr env ''promptRevid'' i ''default'') = revid \<and> revid \<noteq> []
      \<and> \<not> isl (remote env h (org_request env ''DELETE''
                   (''/v0/orgs/'' @ org @ ''/llm/result/'' @ documentId)
                   [(''prompt_revid'', JStr revid)] None)) \<longrightarrow>
      llm_step env org ''delete'' i h
        = (Inr (JObj [(''success'', JBool True), (''documentId'', JStr documentId),
                      (''promptRevid'', JStr revid)]),
           h @ [org_request env ''DELETE'' (''/v0/orgs/'' @ org @ ''/llm/result/'' @ documentId)
                  [(''prompt_revid'', JStr revid)] None]))
   \<and> (strParam env ''userId'' i = Some userId
      \<and> \<not> isl (remote env h (account_request env ''DELETE''
                   (''/v0/account/users/'' @ trim userId) [] None)) \<longrightarrow>
      account_step env ''deleteUser'' i h
        = (Inr (JObj [(''success'', JBool True), (''user_id'', JStr (trim userId))]),
           h @ [account_request env ''DELETE'' (''/v0/account/users/'' @ trim userId) [] None]))
   \<and> (strParam env ''organizationId'' i = Some organizationId
      \<and> \<not> isl (remote env h (account_request env ''DELETE''
                   (''/v0/account/organizations/'' @ trim organizationId) [] None)) \<longrightarrow>
      account_step env ''deleteOrganization'' i h
        = (Inr (JObj [(''success'', JBool True), (''organization_id'', JStr (trim organizationId))]),
           h @ [account_request env ''DELETE''
                  (''/v0/account/organizations/'' @ trim organizationId) [] None]))
   \<and> json_of (ok_entry (JObj ((''success'', JBool True) # kvs)) i)
        = JObj ((''success'', JBool True) # kvs)"
  by (simp add: document_step_def document_delete_def tag_step_def tag_delete_def
        schema_step_def schema_delete_def kb_step_def kb_delete_def llm_step_def llm_delete_def
        account_step_def account_deleteUser_def account_deleteOrganization_def
        reqStr_Some bind_http_const ok_entry_def Let_def)

text \<open>The theorem at deletes of the identifier \<open>X\<close> whose requests are answered with an empty body.\<close>

theorem delete_confirmation_witness:
  "strParam env_delete ''documentId'' 0 = Some ''X'' \<and>
   remote env_delete [] (org_request env_delete ''DELETE'' ''/v0/orgs/org1/documents/X'' [] None)
     = Inr JUndefined \<and>
   document_step env_delete ''org1'' ''delete'' 0 []
     = (Inr (JObj [(''success'', JBool True), (''documentId'', JStr ''X'')]),
        [org_request env_delete ''DELETE'' ''/v0/orgs/org1/documents/X'' [] None]) \<and>
   strParam env_delete ''userId'' 0 = Some ''X'' \<and>
   remote env_delete [] (account_request env_delete ''DELETE'' ''/v0/account/users/X'' [] None)
     = Inr JUndefined \<and>
   account_step env_delete ''deleteUser'' 0 []
     = (Inr (JObj [(''success'', JBool True), (''user_id'', JStr ''X'')]),
        [account_request env_delete ''DELETE'' ''/v0/account/users/X'' [] None]) \<and>
   json_of (ok_entry (JObj [(''success'', JBool True), (''documentId'', JStr ''X'')]) 0)
     = JObj [(''success'', JBool True), (''documentId'', JStr ''X'')]"
proof -
  have a: "strParam env_delete ''documentId'' 0 = Some ''X''"
    "strParam env_delete ''userId'' 0 = Some ''X''"
    by (simp_all add: env_delete_def env_base_def params_def)
  have t: "trim ''X'' = ''X''"
    by (simp add: trim_def is_space_def)
  have q: "remote env_delete [] (org_request env_delete ''DELETE'' ''/v0/orgs/org1/documents/X'' [] None)
     = Inr JUndefined"
    "remote env_delete [] (account_request env_delete ''DELETE'' ''/v0/account/users/X'' [] None)
     = Inr JUndefined"
    by (simp_all add: env_delete_def env_base_def org_request_def account_request_def token_url_def)
  note T = delete_confirmation [where env = env_delete and h = "[]" and i = 0
      and documentId = "''X''" and org = "''org1''" and userId = "''X''"
      and kvs = "[(''documentId'', JStr ''X'')]"]
  from T [THEN conjunct1] a q
  have d: "document_step env_delete ''org1'' ''delete'' 0 []
     = (Inr (JObj [(''success'', JBool True), (''documentId'', JStr ''X'')]),
        [org_request env_delete ''DELETE'' ''/v0/orgs/org1/documents/X'' [] None])"
    by simp
  from T [THEN conjunct2, THEN conjunct2, THEN conjunct2, THEN conjunct2, THEN conjunct2, THEN conjunct1] a q t
  have u: "account_step env_delete ''deleteUser'' 0 []
     = (Inr (JObj [(''success'', JBool True), (''user_id'', JStr ''X'')]),
        [account_request env_delete ''DELETE'' ''/v0/account/users/X'' [] None])"
    by simp
  note j = T [THEN conjunct2, THEN conjunct2, THEN conjunct2, THEN conjunct2, THEN conjunct2, THEN conjunct2, THEN conjunct2]
  from a q d u j show ?thesis by blast
qed

text \<open>
  C10. In a document upload, of the Document node and of the DocRouter node alike, the name
  in the request body is the trimmed Document Name parameter when that is not empty,
  otherwise the file name of the attachment when it has one that is not empty, otherwise
  \<open>document\<close>; it is never empty, and it is the name of every request the upload makes, which
  is one request once the attachment is read and the metadata parsed.
\<close>

theorem upload_document_name:
  assumes "map_of (binary (getInputData env ! i)) b = Some bd"
  shows "(trim d \<noteq> [] \<longrightarrow> documentName d bd = trim d)
       \<and> (trim d = [] \<and> fileName bd = Some f \<and> f \<noteq> [] \<longrightarrow> documentName d bd = f)
       \<and> (trim d = [] \<and> (fileName bd = None \<or> fileName bd = Some []) \<longrightarrow>
            documentName d bd = ''document'')
       \<and> documentName d bd \<noteq> []
       \<and> list_all (\<lambda>r. \<exists>doc. body r = Some (JObj [(''documents'', JArr [JObj doc])])
                          \<and> map_of doc ''name'' = Some (JStr (documentName d bd)))
            (sent (upload_item env org b d t m i) h)
       \<and> (getBinaryDataBuffer env i b = Inr content \<and> parse_if_string env m ''{}'' = Inr md \<longrightarrow>
            length (sent (upload_item env org b d t m i) h) = 1)
       \<and> (strParam env ''binaryPropertyName'' i = Some b \<longrightarrow>
            document_step env org ''upload'' i
              = upload_item env org b (optStr env ''documentName'' i []) (optStr env ''tagIds'' i [])
                  (optJson env ''metadata'' i (JObj [])) i)
       \<and> (strParam env ''operation'' 0 = Some ''upload'' \<and> strParam env ''organizationId'' 0 = Some org
            \<and> strParam env ''binaryPropertyName'' 0 = Some b \<longrightarrow>
            prelude DocRouter env h
              = (Inr (Loop annotate
                   (upload_item env org b (optStr env ''documentName'' 0 []) (optStr env ''tagIds'' 0 [])
                      (optJson env ''metadata'' 0 (JObj [])))), h))"
proof -
  have s: "list_all (\<lambda>r. \<exists>doc. body r = Some (JObj [(''documents'', JArr [JObj doc])])
                          \<and> map_of doc ''name'' = Some (JStr (documentName d bd)))
            (sent (upload_item env org b d t m i) h)"
    using upload_item_sent [OF assms, of org d t m h]
    by (auto simp: org_request_def upload_body_def upload_document_def)
  have l: "getBinaryDataBuffer env i b = Inr content \<and> parse_if_string env m ''{}'' = Inr md \<longrightarrow>
            length (sent (upload_item env org b d t m i) h) = 1"
    using upload_item_sends [OF assms] by blast
  have u: "strParam env ''binaryPropertyName'' i = Some b \<longrightarrow>
            document_step env org ''upload'' i
              = upload_item env org b (optStr env ''documentName'' i []) (optStr env ''tagIds'' i [])
                  (optJson env ''metadata'' i (JObj [])) i"
    by (simp add: document_step_def document_upload_def reqStr_Some)
  have p: "strParam env ''operation'' 0 = Some ''upload'' \<and> strParam env ''organizationId'' 0 = Some org
            \<and> strParam env ''binaryPropertyName'' 0 = Some b \<longrightarrow>
            prelude DocRouter env h
              = (Inr (Loop annotate
                   (upload_item env org b (optStr env ''documentName'' 0 []) (optStr env ''tagIds'' 0 [])
                      (optJson env ''metadata'' 0 (JObj [])))), h)"
    by (simp add: reqStr_Some returnA_def)
  have n: "(trim d \<noteq> [] \<longrightarrow> documentName d bd = trim d)
       \<and> (trim d = [] \<and> fileName bd = Some f \<and> f \<noteq> [] \<longrightarrow> documentName d bd = f)
       \<and> (trim d = [] \<and> (fileName bd = None \<or> fileName bd = Some []) \<longrightarrow>
            documentName d bd = ''document'')"
    by (auto simp: documentName_def)
  from n documentName_nonempty s l u p show ?thesis by blast
qed

text \<open>The theorem at an upload with a blank Document Name and the attachment \<open>a.pdf\<close>.\<close>

theorem upload_document_name_witness:
  "map_of (binary (getInputData env_docrouter ! 0)) ''data'' = Some \<lparr>fileName = Some ''a.pdf''\<rparr> \<and>
   trim '' '' = [] \<and>
   documentName '' '' \<lparr>fileName = Some ''a.pdf''\<rparr> = ''a.pdf'' \<and>
   getBinaryDataBuffer env_docrouter 0 ''data'' = Inr ''QUJD'' \<and>
   parse_if_string env_docrouter (JObj []) ''{}'' = Inr (JObj []) \<and>
   length (sent (upload_item env_docrouter ''org9'' ''data'' '' '' [] (JObj []) 0) []) = 1"
proof -
  have a: "map_of (binary (getInputData env_docrouter ! 0)) ''data'' = Some \<lparr>fileName = Some ''a.pdf''\<rparr>"
    by (simp add: env_docrouter_def env_base_def)
  have t: "trim '' '' = []"
    by (simp add: trim_def is_space_def)
  have b: "getBinaryDataBuffer env_docrouter 0 ''data'' = Inr ''QUJD''"
    by (simp add: env_docrouter_def env_base_def)
  have p: "parse_if_string env_docrouter (JObj []) ''{}'' = Inr (JObj [])"
    by (simp add: parse_if_string_def)
  from upload_document_name [OF a, where d = "'' ''" and f = "''a.pdf''" and org = "''org9''"
      and t = "[]" and m = "JObj []" and h = "[]" and content = "''QUJD''" and md = "JObj []"]
    a t b p
  show ?thesis by simp
qed

end
